theory Spec2Isabelle
  imports Complex_Main
begin

section \<open>JavaScript values\<close>

text \<open>
  The service is TypeScript; at run time its data are JavaScript values. A string is a
  sequence of UTF-16 code units, which is what \<open>length\<close> and \<open>substring\<close> count; here one
  element of a \<open>string\<close> stands for one code unit. A number is a double: the finite ones
  are rationals, and the three special values are kept apart.
\<close>

datatype jsnum = Finite rat | PosInfinity | NegInfinity | NaN

datatype jsval =
    Undefined
  | Null
  | Bool bool
  | Num jsnum
  | Str string
  | Arr "jsval list"
  | Obj "(string \<times> jsval) list"

text \<open>A thrown value is an error object (what the SDK, \<open>JSON.parse\<close>, a failed property
  read and the service itself throw): its \<open>name\<close> and its \<open>message\<close>. An error without a
  message behaves, in every place the service reads \<open>.message\<close>, like one whose message is
  the empty string (both are falsy), so the empty string stands for both.\<close>

datatype js_error = Exn (errName: string) (message: string)

definition bindE :: "js_error + 'a \<Rightarrow> ('a \<Rightarrow> js_error + 'b) \<Rightarrow> js_error + 'b" where
  "bindE r f = (case r of Inl e \<Rightarrow> Inl e | Inr v \<Rightarrow> f v)"

text \<open>\<open>ToBoolean\<close>: what \<open>!v\<close>, \<open>v || d\<close> and \<open>v ? a : b\<close> test.\<close>

fun truthy :: "jsval \<Rightarrow> bool" where
  "truthy Undefined = False"
| "truthy Null = False"
| "truthy (Bool b) = b"
| "truthy (Num (Finite r)) = (r \<noteq> 0)"
| "truthy (Num NaN) = False"
| "truthy (Num PosInfinity) = True"
| "truthy (Num NegInfinity) = True"
| "truthy (Str s) = (s \<noteq> [])"
| "truthy (Arr xs) = True"
| "truthy (Obj kvs) = True"

text \<open>\<open>a || b\<close> on values and on strings.\<close>

definition orElse :: "jsval \<Rightarrow> jsval \<Rightarrow> jsval" where
  "orElse a b = (if truthy a then a else b)"

definition orElseStr :: "string \<Rightarrow> string \<Rightarrow> string" where
  "orElseStr a b = (if a \<noteq> [] then a else b)"

fun Array_isArray :: "jsval \<Rightarrow> bool" where
  "Array_isArray (Arr xs) = True"
| "Array_isArray v = False"

fun arrayItems :: "jsval \<Rightarrow> jsval list" where
  "arrayItems (Arr xs) = xs"
| "arrayItems v = []"

text \<open>Reading a property of \<open>null\<close> or \<open>undefined\<close> throws a \<open>TypeError\<close>; the wording of
  its message is the engine's (V8's is used).\<close>

definition nullishReadMessage :: "string \<Rightarrow> string \<Rightarrow> string" where
  "nullishReadMessage what p =
     ''Cannot read properties of '' @ what @ '' (reading '' @ [CHR 0x27] @ p @ [CHR 0x27] @ '')''"

text \<open>\<open>v.p\<close> for the property names the service reads (\<open>questions\<close>, \<open>question\<close>,
  \<open>options\<close>, ...): none of them is a property of a prototype, so on an object the
  result is the own property or \<open>undefined\<close>, and on a boolean, number, string or array it
  is \<open>undefined\<close>. An object is the list of its own properties.\<close>

fun getProp :: "jsval \<Rightarrow> string \<Rightarrow> js_error + jsval" where
  "getProp Null p = Inl (Exn ''TypeError'' (nullishReadMessage ''null'' p))"
| "getProp Undefined p = Inl (Exn ''TypeError'' (nullishReadMessage ''undefined'' p))"
| "getProp (Obj kvs) p = Inr (case map_of kvs p of Some v \<Rightarrow> v | None \<Rightarrow> Undefined)"
| "getProp v p = Inr Undefined"

text \<open>\<open>s.substring(a, b)\<close> for indices that are natural numbers: both are clamped to the
  length of \<open>s\<close> and swapped when \<open>a\<close> is the larger.\<close>

definition substring :: "string \<Rightarrow> nat \<Rightarrow> nat \<Rightarrow> string" where
  "substring s a b =
     (let a' = min a (length s); b' = min b (length s)
      in take (max a' b' - min a' b') (drop (min a' b') s))"

text \<open>\<open>String.prototype.trim\<close> removes white space and line terminators at both ends;
  among the code units below 256 these are TAB, LF, VT, FF, CR, SP and NBSP.\<close>

definition isWhiteSpace :: "char \<Rightarrow> bool" where
  "isWhiteSpace c = (c \<in> set [CHR 0x09, CHR 0x0A, CHR 0x0B, CHR 0x0C, CHR 0x0D, CHR 0x20, CHR 0xA0])"

definition trim :: "string \<Rightarrow> string" where
  "trim s = rev (dropWhile isWhiteSpace (rev (dropWhile isWhiteSpace s)))"

section \<open>The environment of the service\<close>

text \<open>What the SDK is asked: the model identifier, the contents and the two entries of
  \<open>config\<close>. The two schema objects are constants of the service.\<close>

datatype schema = quizSchema | evaluationSchema

datatype part = InlineData string string | TextPart string

datatype contents = Prompt string | Parts "part list"

record request =
  model :: string
  contents :: contents
  responseMimeType :: string
  responseSchema :: schema

text \<open>
  Everything the service takes from outside:
  \<^item> \<open>process\<close>: \<open>None\<close> when the global \<open>process\<close> is not defined, otherwise its \<open>env\<close>
    (\<open>None\<close> when \<open>process.env\<close> is undefined);
  \<^item> \<open>import_meta_env\<close>: \<open>import.meta.env\<close>;
  \<^item> \<open>JSON_parse\<close> and \<open>Number_toString\<close>: the built-ins \<open>JSON.parse\<close> and the conversion
    of a number inside a template literal;
  \<^item> \<open>generateContent\<close>: \<open>ai.models.generateContent\<close> of a client made with the given API
    key; it throws, or resolves to a response whose \<open>text\<close> is a string or \<open>undefined\<close>.
\<close>

record env =
  process :: "(string \<Rightarrow> string option) option option"
  import_meta_env :: "(string \<Rightarrow> string option) option"
  JSON_parse :: "string \<Rightarrow> js_error + jsval"
  Number_toString :: "jsnum \<Rightarrow> string"
  generateContent :: "string \<Rightarrow> request \<Rightarrow> js_error + string option"

text \<open>\<open>e?.NAME\<close> when it is truthy: a variable that is set to a non-empty string.\<close>

definition truthyVar :: "(string \<Rightarrow> string option) option \<Rightarrow> string \<Rightarrow> string option" where
  "truthyVar e n =
     (case e of
        None \<Rightarrow> None
      | Some m \<Rightarrow> (case m n of None \<Rightarrow> None | Some v \<Rightarrow> if v \<noteq> [] then Some v else None))"

section \<open>The service: API key, marks, prompt\<close>

definition apiKeyMissingMessage :: string where
  "apiKeyMissingMessage =
     ''API Key is missing. Please set the '' @ [CHR 0x27] @ ''API_KEY'' @ [CHR 0x27] @ '' (or '' @
     [CHR 0x27] @ ''VITE_API_KEY'' @ [CHR 0x27] @ '') environment variable in your Netlify Site Settings.''"

text \<open>\<open>getApiKey\<close>: \<open>process.env.API_KEY\<close> first, then \<open>import.meta.env.VITE_API_KEY\<close>, then
  the error. (The \<open>catch\<close> around the two lookups only logs and falls through to the same
  \<open>throw\<close>; no lookup of this model throws.)\<close>

definition getApiKey :: "env \<Rightarrow> js_error + string" where
  "getApiKey env =
     (case (case process env of None \<Rightarrow> None | Some pe \<Rightarrow> truthyVar pe ''API_KEY'') of
        Some k \<Rightarrow> Inr k
      | None \<Rightarrow>
          (case truthyVar (import_meta_env env) ''VITE_API_KEY'' of
             Some k \<Rightarrow> Inr k
           | None \<Rightarrow> Inl (Exn ''Error'' apiKeyMissingMessage)))"

text \<open>No credential on either path: the variable is unset or empty in \<open>process.env\<close> (if
  there is one) and in \<open>import.meta.env\<close> (if there is one).\<close>

definition noCredential :: "env \<Rightarrow> bool" where
  "noCredential env =
     ((case process env of
         Some (Some penv) \<Rightarrow> penv ''API_KEY'' = None \<or> penv ''API_KEY'' = Some []
       | _ \<Rightarrow> True)
      \<and> (case import_meta_env env of
            Some menv \<Rightarrow> menv ''VITE_API_KEY'' = None \<or> menv ''VITE_API_KEY'' = Some []
          | None \<Rightarrow> True))"

definition getMarksForType :: "string \<Rightarrow> nat" where
  "getMarksForType t =
     (if t = ''MCQ'' then 1
      else if t = ''FillBlanks'' then 1
      else if t = ''VeryShort'' then 2
      else if t = ''Short'' then 3
      else if t = ''CaseBased'' then 4
      else if t = ''ExtractBased'' then 4
      else if t = ''Long'' then 5
      else 1)"

definition contextLabel :: "string \<Rightarrow> string" where
  \<open>contextLabel examContext =
     (if examContext \<noteq> [] then ''"'' @ examContext @ ''"'' else ''Standard Board Exam'')\<close>

definition typeInstructions :: "string \<Rightarrow> string \<Rightarrow> string" where
  \<open>typeInstructions questionType examContext =
    (if questionType = ''MCQ'' then
       ''Generate Multiple Choice Questions suitable for '' @
       contextLabel examContext @
       ''. Provide 4 options and 1 correct answer.''
     else if questionType = ''FillBlanks'' then
       ''Generate Fill in the Blank questions suitable for '' @
       contextLabel examContext @
       ''. The question text must contain "______" where the word goes. 'correctAnswer' must be the missing word(s). Do not provide options.''
     else if questionType \<in> set [''Short'', ''VeryShort'', ''Long'', ''Brief''] then
       ''Generate '' @
       questionType @
       '' Answer Type Questions. \<newline>'' @
       ''    CRITICAL: You are an expert Examiner for '' @
       contextLabel examContext @
       ''. \<newline>'' @
       ''    - You MUST provide a 'modelAnswer' field.\<newline>'' @
       ''    - The 'modelAnswer' must be a "Topper's Answer" that scores full marks in '' @
       contextLabel examContext @
       ''.\<newline>'' @
       ''    - Analyze strictly based on '' @
       contextLabel examContext @
       '' marking schemes: use point-wise answers, highlight keywords, and structure the answer exactly how a student needs to write it.\<newline>'' @
       ''    - Do not just copy the PDF text. Synthesize a perfect exam answer.\<newline>'' @
       ''    - 'options' and 'correctAnswer' fields should be empty/null.''
     else if questionType \<in> set [''CaseBased'', ''ExtractBased''] then
       ''Generate '' @
       questionType @
       '' questions suitable for '' @
       contextLabel examContext @
       ''.\<newline>'' @
       ''     - Select a relevant paragraph or case from the text and put it in the 'context' field.\<newline>'' @
       ''     - Ask a question based on that context.\<newline>'' @
       ''     - Provide a 'modelAnswer' that yields full marks based on the context and '' @
       contextLabel examContext @
       '' standards.''
     else [])\<close>

text \<open>The template of the prompt, cut at the place of the source text: what comes before
  \<open>${pdfText.substring(0, 30000)}\<close> and what comes after it.\<close>

definition promptHead :: "env \<Rightarrow> jsnum \<Rightarrow> string \<Rightarrow> string \<Rightarrow> string \<Rightarrow> string \<Rightarrow> string" where
  \<open>promptHead env numQuestions difficulty questionType examContext instructions =
     ''\<newline>'' @
     ''  Role: You are an expert Exam Setter and Examiner for '' @
     orElseStr examContext ''General Education'' @
     ''.\<newline>'' @
     ''  Task: Create a quiz/test based on the provided text.\<newline>'' @
     ''  \<newline>'' @
     ''  Configuration:\<newline>'' @
     ''  - Question Type: '' @
     questionType @
     ''\<newline>'' @
     ''  - Quantity: '' @
     Number_toString env numQuestions @
     '' questions\<newline>'' @
     ''  - Difficulty: '' @
     difficulty @
     ''\<newline>'' @
     ''  - Exam Context/Focus: '' @
     orElseStr examContext ''Standard Academic Standard'' @
     ''\<newline>'' @
     ''  \<newline>'' @
     ''  Instructions:\<newline>'' @
     ''  '' @
     instructions @
     ''\<newline>'' @
     ''  \<newline>'' @
     ''  General Rules:\<newline>'' @
     ''  - Ensure questions are relevant to the provided text.\<newline>'' @
     ''  - Explanation field should clarify the concept for revision.\<newline>'' @
     ''\<newline>'' @
     ''  Text Content:\<newline>'' @
     ''  ---\<newline>'' @
     ''  ''\<close>

definition promptTail :: string where
  \<open>promptTail =
     ''\<newline>'' @
     ''  ---\<newline>'' @
     ''  ''\<close>

definition quizPrompt :: "env \<Rightarrow> string \<Rightarrow> jsnum \<Rightarrow> string \<Rightarrow> string \<Rightarrow> string \<Rightarrow> string \<Rightarrow> string" where
  "quizPrompt env pdfText numQuestions difficulty questionType examContext instructions =
     promptHead env numQuestions difficulty questionType examContext instructions @
     substring pdfText 0 30000 @
     promptTail"

section \<open>Generating the questions\<close>

text \<open>\<open>QuizQuestion\<close> of \<open>src/types.ts\<close>. The fields other than \<open>type\<close> hold whatever the
  response held (or the default): the mapping checks no type. The service with the two
  models adds \<open>marks\<close> to each question.\<close>

record QuizQuestion =
  type :: string
  question :: jsval
  options :: jsval
  correctAnswer :: jsval
  modelAnswer :: jsval
  "context" :: jsval
  explanation :: jsval

record MarkedQuestion = QuizQuestion +
  marks :: nat

definition invalidFormatMessage :: string where
  "invalidFormatMessage =
     ''Invalid response format from AI. Expected a '' @ [CHR 0x27] @ ''questions'' @ [CHR 0x27] @ '' array.''"

text \<open>The callback of \<open>parsed.questions.map\<close>: the properties are read in the order of the
  object literal, and the first read throws when the element is \<open>null\<close>.\<close>

definition mapQuestion :: "string \<Rightarrow> jsval \<Rightarrow> js_error + MarkedQuestion" where
  "mapQuestion questionType q =
     bindE (getProp q ''question'') (\<lambda>q_question.
     bindE (getProp q ''options'') (\<lambda>q_options.
     bindE (getProp q ''correctAnswer'') (\<lambda>q_correctAnswer.
     bindE (getProp q ''modelAnswer'') (\<lambda>q_modelAnswer.
     bindE (getProp q ''context'') (\<lambda>q_context.
     bindE (getProp q ''explanation'') (\<lambda>q_explanation.
       Inr \<lparr> type = questionType,
             question = q_question,
             options = orElse q_options (Arr []),
             correctAnswer = orElse q_correctAnswer (Str []),
             modelAnswer = orElse q_modelAnswer (Str []),
             context = orElse q_context (Str []),
             explanation = orElse q_explanation (Str []),
             marks = getMarksForType questionType \<rparr>))))))"

text \<open>\<open>Array.prototype.map\<close> with a callback that may throw: the first throw ends it.\<close>

fun mapE :: "('a \<Rightarrow> js_error + 'b) \<Rightarrow> 'a list \<Rightarrow> js_error + 'b list" where
  "mapE f [] = Inr []"
| "mapE f (x # xs) = bindE (f x) (\<lambda>y. bindE (mapE f xs) (\<lambda>ys. Inr (y # ys)))"

definition processResponse :: "env \<Rightarrow> string \<Rightarrow> string \<Rightarrow> js_error + MarkedQuestion list" where
  "processResponse env questionType jsonString =
     bindE (JSON_parse env jsonString) (\<lambda>parsed.
     bindE (getProp parsed ''questions'') (\<lambda>questions.
       if \<not> truthy questions \<or> \<not> Array_isArray questions
       then Inl (Exn ''Error'' invalidFormatMessage)
       else mapE (mapQuestion questionType) (arrayItems questions)))"

text \<open>\<open>response.text.trim()\<close>: \<open>text\<close> may be \<open>undefined\<close>.\<close>

definition responseTextTrim :: "string option \<Rightarrow> js_error + string" where
  "responseTextTrim text =
     (case text of
        None \<Rightarrow> Inl (Exn ''TypeError'' (nullishReadMessage ''undefined'' ''trim''))
      | Some s \<Rightarrow> Inr (trim s))"

definition quizRequest :: "string \<Rightarrow> string \<Rightarrow> request" where
  "quizRequest m prompt =
     \<lparr> model = m, contents = Prompt prompt,
       responseMimeType = ''application/json'', responseSchema = quizSchema \<rparr>"

text \<open>The body of each of the two \<open>try\<close> blocks: the call, then \<open>processResponse\<close>.\<close>

definition attempt :: "env \<Rightarrow> string \<Rightarrow> string \<Rightarrow> request \<Rightarrow> js_error + MarkedQuestion list" where
  "attempt env apiKey questionType req =
     bindE (generateContent env apiKey req) (\<lambda>response.
     bindE (responseTextTrim response) (\<lambda>jsonString.
       processResponse env questionType jsonString))"

definition generationFailedMessage :: "string \<Rightarrow> string" where
  "generationFailedMessage msg =
     ''AI Generation Failed: '' @ msg @ ''. Please check your API Key and Quota.''"

text \<open>\<open>generateQuiz\<close> (the service with the primary and the secondary model). The
  result is what the promise settles to, \<open>Inl\<close> a rejection, together with the requests
  sent to the SDK, in order.\<close>

definition generateQuiz ::
  "env \<Rightarrow> string \<Rightarrow> jsnum \<Rightarrow> string \<Rightarrow> string \<Rightarrow> string
     \<Rightarrow> (js_error + MarkedQuestion list) \<times> request list" where
  "generateQuiz env pdfText numQuestions difficulty questionType examContext =
     (case getApiKey env of
        Inl e \<Rightarrow> (Inl e, [])
      | Inr apiKey \<Rightarrow>
          (let prompt = quizPrompt env pdfText numQuestions difficulty questionType examContext
                          (typeInstructions questionType examContext);
               primary = quizRequest ''gemini-3-pro-preview'' prompt;
               secondary = quizRequest ''gemini-2.5-flash'' prompt
           in (case attempt env apiKey questionType primary of
                 Inr qs \<Rightarrow> (Inr qs, [primary])
               | Inl error \<Rightarrow>
                   (case attempt env apiKey questionType secondary of
                      Inr qs \<Rightarrow> (Inr qs, [primary, secondary])
                    | Inl retryError \<Rightarrow>
                        (Inl (Exn ''Error'' (generationFailedMessage
                                (orElseStr (message retryError)
                                   (orElseStr (message error) ''Unknown error'')))),
                         [primary, secondary])))))"

text \<open>The two requests of \<open>generateQuiz\<close>, by name.\<close>

definition primaryRequest :: "env \<Rightarrow> string \<Rightarrow> jsnum \<Rightarrow> string \<Rightarrow> string \<Rightarrow> string \<Rightarrow> request" where
  "primaryRequest env pdfText numQuestions difficulty questionType examContext =
     quizRequest ''gemini-3-pro-preview''
       (quizPrompt env pdfText numQuestions difficulty questionType examContext
          (typeInstructions questionType examContext))"

definition secondaryRequest :: "env \<Rightarrow> string \<Rightarrow> jsnum \<Rightarrow> string \<Rightarrow> string \<Rightarrow> string \<Rightarrow> request" where
  "secondaryRequest env pdfText numQuestions difficulty questionType examContext =
     quizRequest ''gemini-2.5-flash''
       (quizPrompt env pdfText numQuestions difficulty questionType examContext
          (typeInstructions questionType examContext))"

section \<open>Evaluating an answer\<close>

text \<open>The parameters \<open>question\<close> and \<open>modelAnswer\<close> of \<open>evaluateAnswer\<close> are written
  \<open>questionText\<close> and \<open>modelAnswerText\<close>, the two names being fields of \<open>QuizQuestion\<close>.\<close>

definition evaluationPrompt :: "env \<Rightarrow> string \<Rightarrow> string \<Rightarrow> jsnum \<Rightarrow> string" where
  \<open>evaluationPrompt env questionText modelAnswerText maxMarks =
     ''\<newline>'' @
     ''    Role: Strict CBSE Board Examiner.\<newline>'' @
     ''    Task: Grade the student's handwritten answer (image) against the reference Topper Answer.\<newline>'' @
     ''    \<newline>'' @
     ''    Question: '' @
     questionText @
     ''\<newline>'' @
     ''    Reference Topper Answer: '' @
     modelAnswerText @
     ''\<newline>'' @
     ''    Maximum Marks: '' @
     Number_toString env maxMarks @
     ''\<newline>'' @
     ''\<newline>'' @
     ''    Instructions:\<newline>'' @
     ''    1. Read the handwriting in the image.\<newline>'' @
     ''    2. Compare it strictly with the Topper Answer.\<newline>'' @
     ''    3. Award marks based on CBSE step-marking (keywords, definition, structure).\<newline>'' @
     ''    4. List where marks were cut (mistakes).\<newline>'' @
     ''    5. Provide brief advice.\<newline>'' @
     ''    ''\<close>

definition evaluationRequest :: "env \<Rightarrow> string \<Rightarrow> string \<Rightarrow> string \<Rightarrow> string \<Rightarrow> jsnum \<Rightarrow> request" where
  "evaluationRequest env questionText modelAnswerText imageBase64 mimeType maxMarks =
     \<lparr> model = ''gemini-3-pro-preview'',
       contents = Parts [InlineData mimeType imageBase64,
                         TextPart (evaluationPrompt env questionText modelAnswerText maxMarks)],
       responseMimeType = ''application/json'', responseSchema = evaluationSchema \<rparr>"

definition evaluationFailedMessage :: "string \<Rightarrow> string" where
  "evaluationFailedMessage msg = ''Evaluation failed: '' @ orElseStr msg ''Please check your API Key.''"

text \<open>\<open>evaluateAnswer\<close>. The value returned is \<open>JSON.parse(jsonString) as EvaluationResult\<close>:
  the cast is erased at run time, so the result is the parsed value itself.\<close>

definition evaluateAnswer ::
  "env \<Rightarrow> string \<Rightarrow> string \<Rightarrow> string \<Rightarrow> string \<Rightarrow> jsnum \<Rightarrow> (js_error + jsval) \<times> request list" where
  "evaluateAnswer env questionText modelAnswerText imageBase64 mimeType maxMarks =
     (case getApiKey env of
        Inl e \<Rightarrow> (Inl e, [])
      | Inr apiKey \<Rightarrow>
          (let req = evaluationRequest env questionText modelAnswerText imageBase64 mimeType maxMarks
           in (case bindE (generateContent env apiKey req) (\<lambda>response.
                    bindE (responseTextTrim response) (\<lambda>jsonString.
                      JSON_parse env jsonString)) of
                 Inr result \<Rightarrow> (Inr result, [req])
               | Inl error \<Rightarrow>
                   (Inl (Exn ''Error'' (evaluationFailedMessage (message error))), [req]))))"

text \<open>The invariant of \<open>EvaluationResult\<close> as the specification words it, \<open>score\<close> does
  not exceed \<open>maxMarks\<close>, read on a returned value with the comparison \<open><=\<close> of numbers.\<close>

fun num_le :: "jsnum \<Rightarrow> jsnum \<Rightarrow> bool" where
  "num_le NaN b = False"
| "num_le a NaN = False"
| "num_le (Finite a) (Finite b) = (a \<le> b)"
| "num_le NegInfinity b = True"
| "num_le a PosInfinity = True"
| "num_le PosInfinity b = False"
| "num_le a NegInfinity = False"

definition scoreWithinMax :: "jsval \<Rightarrow> jsnum \<Rightarrow> bool" where
  "scoreWithinMax result maxMarks =
     (case getProp result ''score'' of
        Inr (Num score) \<Rightarrow> num_le score maxMarks
      | _ \<Rightarrow> False)"

section \<open>The service with one model (\<open>src/services/geminiService.ts\<close>)\<close>

text \<open>The other copy of the service asks one model, \<open>gemini-flash-latest\<close>, assigns no
  marks and replaces every failure by one fixed message. Its definitions carry the suffix
  \<open>_flash\<close>; the template of the prompt is the same.\<close>

definition typeInstructions_flash :: "string \<Rightarrow> string" where
  \<open>typeInstructions_flash questionType =
    (if questionType = ''MCQ'' then
       ''Generate Multiple Choice Questions. Provide 4 options and 1 correct answer.''
     else if questionType = ''FillBlanks'' then
       ''Generate Fill in the Blank questions. The question text must contain "______" where the word goes. 'correctAnswer' must be the missing word(s). Do not provide options.''
     else if questionType \<in> set [''Short'', ''VeryShort'', ''Long'', ''Brief''] then
       ''Generate '' @
       questionType @
       '' Answer Type Questions. \<newline>'' @
       ''    CRITICAL: You are an expert Board Examiner (e.g., CBSE Class 10/12). \<newline>'' @
       ''    - You MUST provide a 'modelAnswer' field.\<newline>'' @
       ''    - The 'modelAnswer' must be a "Topper's Answer".\<newline>'' @
       ''    - Analyze previous board topper sheets: use point-wise answers, highlight keywords, and structure the answer exactly how a student needs to write it to get FULL MARKS.\<newline>'' @
       ''    - Do not just copy the PDF text. Synthesize a perfect exam answer.\<newline>'' @
       ''    - 'options' and 'correctAnswer' fields should be empty/null.''
     else if questionType \<in> set [''CaseBased'', ''ExtractBased''] then
       ''Generate '' @
       questionType @
       '' questions.\<newline>'' @
       ''     - Select a relevant paragraph or case from the text and put it in the 'context' field.\<newline>'' @
       ''     - Ask a question based on that context.\<newline>'' @
       ''     - Provide a 'modelAnswer' that yields full marks based on the context.''
     else [])\<close>

definition mapQuestion_flash :: "string \<Rightarrow> jsval \<Rightarrow> js_error + QuizQuestion" where
  "mapQuestion_flash questionType q =
     bindE (getProp q ''question'') (\<lambda>q_question.
     bindE (getProp q ''options'') (\<lambda>q_options.
     bindE (getProp q ''correctAnswer'') (\<lambda>q_correctAnswer.
     bindE (getProp q ''modelAnswer'') (\<lambda>q_modelAnswer.
     bindE (getProp q ''context'') (\<lambda>q_context.
     bindE (getProp q ''explanation'') (\<lambda>q_explanation.
       Inr \<lparr> type = questionType,
             question = q_question,
             options = orElse q_options (Arr []),
             correctAnswer = orElse q_correctAnswer (Str []),
             modelAnswer = orElse q_modelAnswer (Str []),
             context = orElse q_context (Str []),
             explanation = orElse q_explanation (Str []) \<rparr>))))))"

text \<open>The body of the \<open>try\<close> block of this copy: call, trim, parse, validate, map.\<close>

definition attempt_flash :: "env \<Rightarrow> string \<Rightarrow> string \<Rightarrow> request \<Rightarrow> js_error + QuizQuestion list" where
  "attempt_flash env apiKey questionType req =
     bindE (generateContent env apiKey req) (\<lambda>response.
     bindE (responseTextTrim response) (\<lambda>jsonString.
     bindE (JSON_parse env jsonString) (\<lambda>parsed.
     bindE (getProp parsed ''questions'') (\<lambda>questions.
       if \<not> truthy questions \<or> \<not> Array_isArray questions
       then Inl (Exn ''Error'' invalidFormatMessage)
       else mapE (mapQuestion_flash questionType) (arrayItems questions)))))"

definition generateFailed_flash :: string where
  "generateFailed_flash =
     ''Failed to generate quiz. The AI model might be unavailable or the content could not be processed.''"

text \<open>\<open>process.env.API_KEY\<close> is read without a guard here: it throws when \<open>process\<close> or
  \<open>process.env\<close> is missing.\<close>

definition generateQuiz_flash ::
  "env \<Rightarrow> string \<Rightarrow> jsnum \<Rightarrow> string \<Rightarrow> string \<Rightarrow> string
     \<Rightarrow> (js_error + QuizQuestion list) \<times> request list" where
  "generateQuiz_flash env pdfText numQuestions difficulty questionType examContext =
     (case process env of
        None \<Rightarrow> (Inl (Exn ''ReferenceError'' ''process is not defined''), [])
      | Some None \<Rightarrow> (Inl (Exn ''TypeError'' (nullishReadMessage ''undefined'' ''API_KEY'')), [])
      | Some (Some penv) \<Rightarrow>
          (case truthyVar (Some penv) ''API_KEY'' of
             None \<Rightarrow> (Inl (Exn ''Error'' ''API_KEY environment variable not set''), [])
           | Some apiKey \<Rightarrow>
               (let prompt = quizPrompt env pdfText numQuestions difficulty questionType examContext
                               (typeInstructions_flash questionType);
                    req = quizRequest ''gemini-flash-latest'' prompt
                in (case attempt_flash env apiKey questionType req of
                      Inr validatedQuestions \<Rightarrow> (Inr validatedQuestions, [req])
                    | Inl error \<Rightarrow> (Inl (Exn ''Error'' generateFailed_flash), [req])))))"

section \<open>Concrete environments\<close>

text \<open>Response texts, and a table that agrees with \<open>JSON.parse\<close> on each of them (any
  other text is taken to be no JSON). In the first text the model claims the type \<open>Long\<close>
  and 9 marks for its first question.\<close>

definition twoQuestionsText :: string where
  \<open>twoQuestionsText =
     ''{"questions":[{"type":"Long","question":"Q1","marks":9},'' @
     ''{"question":"Q2","options":["a","b","c","d"],"correctAnswer":"a"}]}''\<close>

definition twoQuestionsJson :: jsval where
  "twoQuestionsJson =
     Obj [(''questions'', Arr [
       Obj [(''type'', Str ''Long''), (''question'', Str ''Q1''), (''marks'', Num (Finite 9))],
       Obj [(''question'', Str ''Q2''),
            (''options'', Arr [Str ''a'', Str ''b'', Str ''c'', Str ''d'']),
            (''correctAnswer'', Str ''a'')]])]"

text \<open>What the mapping makes of these two questions, for a requested type and its marks.\<close>

definition twoQuestionsMapped :: "string \<Rightarrow> QuizQuestion list" where
  "twoQuestionsMapped t =
     [\<lparr> type = t, question = Str ''Q1'', options = Arr [],
        correctAnswer = Str [], modelAnswer = Str [], context = Str [], explanation = Str [] \<rparr>,
      \<lparr> type = t, question = Str ''Q2'',
        options = Arr [Str ''a'', Str ''b'', Str ''c'', Str ''d''],
        correctAnswer = Str ''a'', modelAnswer = Str [], context = Str [], explanation = Str [] \<rparr>]"

definition twoQuestionsMarked :: "string \<Rightarrow> nat \<Rightarrow> MarkedQuestion list" where
  "twoQuestionsMarked t m =
     [\<lparr> type = t, question = Str ''Q1'', options = Arr [],
        correctAnswer = Str [], modelAnswer = Str [], context = Str [], explanation = Str [],
        marks = m \<rparr>,
      \<lparr> type = t, question = Str ''Q2'',
        options = Arr [Str ''a'', Str ''b'', Str ''c'', Str ''d''],
        correctAnswer = Str ''a'', modelAnswer = Str [], context = Str [], explanation = Str [],
        marks = m \<rparr>]"

definition noQuestionsText :: string where
  \<open>noQuestionsText = ''{"questions":[]}''\<close>

definition nullQuestionText :: string where
  \<open>nullQuestionText = ''{"questions":[null]}''\<close>

definition score7Text :: string where
  \<open>score7Text = ''{"score":7,"maxMarks":5,"mistakes":["m"],"feedback":"f"}''\<close>

definition score7Json :: jsval where
  "score7Json =
     Obj [(''score'', Num (Finite 7)), (''maxMarks'', Num (Finite 5)),
          (''mistakes'', Arr [Str ''m'']), (''feedback'', Str ''f'')]"

definition exampleParse :: "string \<Rightarrow> js_error + jsval" where
  "exampleParse s =
     (if s = twoQuestionsText then Inr twoQuestionsJson
      else if s = noQuestionsText then Inr (Obj [(''questions'', Arr [])])
      else if s = nullQuestionText then Inr (Obj [(''questions'', Arr [Null])])
      else if s = score7Text then Inr score7Json
      else if s = ''{}'' then Inr (Obj [])
      else if s = ''null'' then Inr Null
      else Inl (Exn ''SyntaxError'' ''Unexpected token''))"

text \<open>The conversion to a string, on the numbers the examples use (1, 2, 5, 7) and on
  \<open>NaN\<close>; the examples apply it to no other number.\<close>

definition exampleNumberToString :: "jsnum \<Rightarrow> string" where
  "exampleNumberToString n =
     (if n = Finite 1 then ''1''
      else if n = Finite 2 then ''2''
      else if n = Finite 5 then ''5''
      else if n = Finite 7 then ''7''
      else ''NaN'')"

text \<open>An environment with \<open>process.env.API_KEY = "k"\<close> in which the outcome of a call
  depends on the model asked only.\<close>

definition exampleEnv :: "(string \<Rightarrow> js_error + string option) \<Rightarrow> env" where
  "exampleEnv answer =
     \<lparr> process = Some (Some [''API_KEY'' \<mapsto> ''k'']),
       import_meta_env = None,
       JSON_parse = exampleParse,
       Number_toString = exampleNumberToString,
       generateContent = (\<lambda>apiKey req. answer (model req)) \<rparr>"

text \<open>Every model answers with the given text (white space around it included).\<close>

definition answering :: "string \<Rightarrow> env" where
  "answering t = exampleEnv (\<lambda>m. Inr (Some t))"

text \<open>The primary model is out of quota; the secondary answers with the given outcome.\<close>

definition primaryDown :: "js_error + string option \<Rightarrow> env" where
  "primaryDown r =
     exampleEnv (\<lambda>m. if m = ''gemini-3-pro-preview'' then Inl (Exn ''ApiError'' ''quota exceeded'') else r)"

text \<open>No credential: \<open>process\<close> is not defined and \<open>import.meta.env\<close> has an empty
  \<open>VITE_API_KEY\<close>.\<close>

definition noKeyEnv :: env where
  "noKeyEnv = (answering noQuestionsText)
     \<lparr> process := None, import_meta_env := Some [''VITE_API_KEY'' \<mapsto> []] \<rparr>"

section \<open>Auxiliary lemmas\<close>

lemma bindE_simps [simp]:
  "bindE (Inl e) f = Inl e"
  "bindE (Inr v) f = f v"
  by (simp_all add: bindE_def)

lemma bindE_eq_Inr: "bindE r f = Inr y \<longleftrightarrow> (\<exists>v. r = Inr v \<and> f v = Inr y)"
  by (cases r) simp_all

lemma mapE_Inr_nth:
  "mapE f xs = Inr ys \<Longrightarrow> length ys = length xs \<and> (\<forall>i<length xs. f (xs ! i) = Inr (ys ! i))"
proof (induction xs arbitrary: ys)
  case Nil
  then show ?case by simp
next
  case (Cons x xs)
  from Cons.prems obtain y zs where y: "f x = Inr y" and zs: "mapE f xs = Inr zs" and ys: "ys = y # zs"
    by (auto simp: bindE_eq_Inr)
  from Cons.IH [OF zs] have ih: "length zs = length xs" "\<forall>i<length xs. f (xs ! i) = Inr (zs ! i)"
    by simp_all
  show ?case
  proof (intro conjI allI impI)
    show "length ys = length (x # xs)" using ih ys by simp
  next
    fix i assume "i < length (x # xs)"
    then show "f ((x # xs) ! i) = Inr (ys ! i)"
      using y ih ys by (cases i) simp_all
  qed
qed

lemma mapE_Inr_set:
  "mapE f xs = Inr ys \<Longrightarrow> y \<in> set ys \<Longrightarrow> \<exists>x\<in>set xs. f x = Inr y"
proof -
  assume m: "mapE f xs = Inr ys" and y: "y \<in> set ys"
  from y obtain i where i: "i < length ys" "ys ! i = y" by (auto simp: in_set_conv_nth)
  from mapE_Inr_nth [OF m] i have "i < length xs" "f (xs ! i) = Inr y" by auto
  then show ?thesis by (metis nth_mem)
qed

lemma mapE_total:
  "(\<And>x. x \<in> set xs \<Longrightarrow> \<exists>y. f x = Inr y) \<Longrightarrow> \<exists>ys. mapE f xs = Inr ys"
proof (induction xs)
  case Nil
  then show ?case by simp
next
  case (Cons x xs)
  from Cons.prems [of x] obtain y where y: "f x = Inr y" by auto
  from Cons.IH Cons.prems obtain zs where "mapE f xs = Inr zs" by auto
  with y show ?case by simp
qed

lemma getProp_defined:
  "q \<noteq> Null \<Longrightarrow> q \<noteq> Undefined \<Longrightarrow> \<exists>v. getProp q p = Inr v"
  by (cases q) simp_all

lemma mapQuestion_Inr:
  "mapQuestion questionType q = Inr r \<Longrightarrow> type r = questionType \<and> marks r = getMarksForType questionType"
  by (auto simp: mapQuestion_def bindE_eq_Inr)

lemma mapQuestion_flash_Inr:
  "mapQuestion_flash questionType q = Inr r \<Longrightarrow> type r = questionType"
  by (auto simp: mapQuestion_flash_def bindE_eq_Inr)

lemma mapQuestion_total:
  assumes "q \<noteq> Null" "q \<noteq> Undefined"
  shows "\<exists>r. mapQuestion questionType q = Inr r"
proof -
  have "\<And>p. \<exists>v. getProp q p = Inr v" using assms by (rule getProp_defined)
  then obtain g where "\<And>p. getProp q p = Inr (g p)" by metis
  then show ?thesis by (simp add: mapQuestion_def)
qed

lemma mapQuestion_flash_total:
  assumes "q \<noteq> Null" "q \<noteq> Undefined"
  shows "\<exists>r. mapQuestion_flash questionType q = Inr r"
proof -
  have "\<And>p. \<exists>v. getProp q p = Inr v" using assms by (rule getProp_defined)
  then obtain g where "\<And>p. getProp q p = Inr (g p)" by metis
  then show ?thesis by (simp add: mapQuestion_flash_def)
qed

lemma processResponse_Inr:
  assumes "processResponse env questionType s = Inr qs"
  shows "\<exists>parsed items. JSON_parse env s = Inr parsed
           \<and> getProp parsed ''questions'' = Inr (Arr items)
           \<and> mapE (mapQuestion questionType) items = Inr qs"
proof -
  from assms obtain parsed questions where p: "JSON_parse env s = Inr parsed"
    and q: "getProp parsed ''questions'' = Inr questions"
    and r: "(if \<not> truthy questions \<or> \<not> Array_isArray questions
             then Inl (Exn ''Error'' invalidFormatMessage)
             else mapE (mapQuestion questionType) (arrayItems questions)) = Inr qs"
    unfolding processResponse_def bindE_eq_Inr by blast
  from r have a: "Array_isArray questions" and m: "mapE (mapQuestion questionType) (arrayItems questions) = Inr qs"
    by (auto split: if_splits)
  from a obtain items where "questions = Arr items" by (cases questions) simp_all
  with p q m show ?thesis by simp
qed

lemma attempt_Inr:
  assumes "attempt env apiKey questionType req = Inr qs"
  shows "\<exists>t. generateContent env apiKey req = Inr (Some t)
            \<and> processResponse env questionType (trim t) = Inr qs"
  using assms
  by (auto simp: attempt_def bindE_eq_Inr responseTextTrim_def split: option.splits)

lemma generateQuiz_Inr:
  assumes "fst (generateQuiz env pdfText numQuestions difficulty questionType examContext) = Inr qs"
  shows "\<exists>apiKey req. attempt env apiKey questionType req = Inr qs"
  using assms
  by (auto simp: generateQuiz_def Let_def split: sum.splits)

lemma generateQuiz_flash_Inr:
  assumes "fst (generateQuiz_flash env pdfText numQuestions difficulty questionType examContext) = Inr qs"
  shows "\<exists>apiKey req. attempt_flash env apiKey questionType req = Inr qs"
  using assms
  by (auto simp: generateQuiz_flash_def Let_def split: sum.splits option.splits)

lemma attempt_flash_Inr:
  assumes "attempt_flash env apiKey questionType req = Inr qs"
  shows "\<exists>t parsed items. generateContent env apiKey req = Inr (Some t)
            \<and> JSON_parse env (trim t) = Inr parsed
            \<and> getProp parsed ''questions'' = Inr (Arr items)
            \<and> mapE (mapQuestion_flash questionType) items = Inr qs"
proof -
  from assms obtain response jsonString parsed questions where
    g: "generateContent env apiKey req = Inr response"
    and t: "responseTextTrim response = Inr jsonString"
    and p: "JSON_parse env jsonString = Inr parsed"
    and q: "getProp parsed ''questions'' = Inr questions"
    and r: "(if \<not> truthy questions \<or> \<not> Array_isArray questions
             then Inl (Exn ''Error'' invalidFormatMessage)
             else mapE (mapQuestion_flash questionType) (arrayItems questions)) = Inr qs"
    unfolding attempt_flash_def bindE_eq_Inr by blast
  from t obtain tx where tx: "response = Some tx" "jsonString = trim tx"
    by (auto simp: responseTextTrim_def split: option.splits)
  from r have a: "Array_isArray questions" and m: "mapE (mapQuestion_flash questionType) (arrayItems questions) = Inr qs"
    by (auto split: if_splits)
  from a obtain items where "questions = Arr items" by (cases questions) simp_all
  with g tx p q m show ?thesis by simp
qed


lemma substring_from_0: "substring s 0 n = take n s"
  by (simp add: substring_def Let_def min_def)

lemma generateQuiz_with_key:
  assumes "getApiKey env = Inr apiKey"
  shows "generateQuiz env pdfText numQuestions difficulty questionType examContext =
     (case attempt env apiKey questionType
             (primaryRequest env pdfText numQuestions difficulty questionType examContext) of
        Inr qs \<Rightarrow> (Inr qs, [primaryRequest env pdfText numQuestions difficulty questionType examContext])
      | Inl error \<Rightarrow>
          (case attempt env apiKey questionType
                  (secondaryRequest env pdfText numQuestions difficulty questionType examContext) of
             Inr qs \<Rightarrow>
               (Inr qs, [primaryRequest env pdfText numQuestions difficulty questionType examContext,
                         secondaryRequest env pdfText numQuestions difficulty questionType examContext])
           | Inl retryError \<Rightarrow>
               (Inl (Exn ''Error'' (generationFailedMessage
                       (orElseStr (message retryError) (orElseStr (message error) ''Unknown error'')))),
                [primaryRequest env pdfText numQuestions difficulty questionType examContext,
                 secondaryRequest env pdfText numQuestions difficulty questionType examContext])))"
  unfolding generateQuiz_def Let_def primaryRequest_def secondaryRequest_def using assms by simp

lemma generateQuiz_without_key:
  assumes "getApiKey env = Inl e"
  shows "generateQuiz env pdfText numQuestions difficulty questionType examContext = (Inl e, [])"
  using assms by (simp add: generateQuiz_def)

lemma noCredential_getApiKey:
  assumes "noCredential env"
  shows "getApiKey env = Inl (Exn ''Error'' apiKeyMissingMessage)"
  using assms
  by (auto simp: noCredential_def getApiKey_def truthyVar_def split: option.splits)

lemma attempt_of_response:
  assumes "generateContent env apiKey req = Inr (Some t)"
  shows "attempt env apiKey questionType req = processResponse env questionType (trim t)"
  using assms by (simp add: attempt_def responseTextTrim_def)

lemma processResponse_of_items:
  assumes "JSON_parse env s = Inr parsed" "getProp parsed ''questions'' = Inr (Arr items)"
  shows "processResponse env questionType s = mapE (mapQuestion questionType) items"
  using assms by (simp add: processResponse_def)

lemma exampleEnv_simps:
  "getApiKey (exampleEnv a) = Inr ''k''"
  "process (exampleEnv a) = Some (Some [''API_KEY'' \<mapsto> ''k''])"
  "generateContent (exampleEnv a) k req = a (model req)"
  "JSON_parse (exampleEnv a) = exampleParse"
  "Number_toString (exampleEnv a) = exampleNumberToString"
  by (simp_all add: exampleEnv_def getApiKey_def truthyVar_def)

lemma request_models:
  "model (primaryRequest env pdfText numQuestions difficulty questionType examContext) = ''gemini-3-pro-preview''"
  "model (secondaryRequest env pdfText numQuestions difficulty questionType examContext) = ''gemini-2.5-flash''"
  by (simp_all add: primaryRequest_def secondaryRequest_def quizRequest_def)

lemma trim_examples:
  "trim twoQuestionsText = twoQuestionsText"
  "trim noQuestionsText = noQuestionsText"
  "trim nullQuestionText = nullQuestionText"
  "trim score7Text = score7Text"
  "trim ''{}'' = ''{}''"
  "trim ''null'' = ''null''"
  "trim ''oops'' = ''oops''"
  by (simp_all add: trim_def isWhiteSpace_def twoQuestionsText_def noQuestionsText_def
      nullQuestionText_def score7Text_def)

lemma exampleParse_examples:
  "exampleParse twoQuestionsText = Inr twoQuestionsJson"
  "exampleParse noQuestionsText = Inr (Obj [(''questions'', Arr [])])"
  "exampleParse nullQuestionText = Inr (Obj [(''questions'', Arr [Null])])"
  "exampleParse score7Text = Inr score7Json"
  "exampleParse ''{}'' = Inr (Obj [])"
  "exampleParse ''null'' = Inr Null"
  "exampleParse ''oops'' = Inl (Exn ''SyntaxError'' ''Unexpected token'')"
  by (simp_all add: exampleParse_def twoQuestionsText_def noQuestionsText_def
      nullQuestionText_def score7Text_def)

lemma processResponse_twoQuestions:
  "processResponse (exampleEnv a) t twoQuestionsText = Inr (twoQuestionsMarked t (getMarksForType t))"
  by (simp add: processResponse_def exampleEnv_simps exampleParse_examples twoQuestionsJson_def
      mapQuestion_def orElse_def twoQuestionsMarked_def)

lemma generateQuiz_twoQuestions:
  "generateQuiz (answering twoQuestionsText) pdfText numQuestions difficulty t examContext =
     (Inr (twoQuestionsMarked t (getMarksForType t)),
      [primaryRequest (answering twoQuestionsText) pdfText numQuestions difficulty t examContext])"
  by (simp add: generateQuiz_with_key [where apiKey = "''k''"] answering_def exampleEnv_simps
      attempt_of_response [where t = twoQuestionsText] trim_examples processResponse_twoQuestions)

lemma flash_twoQuestions:
  "fst (generateQuiz_flash (answering twoQuestionsText) pdfText numQuestions difficulty t examContext) =
     Inr (twoQuestionsMapped t)"
  by (simp add: generateQuiz_flash_def Let_def answering_def exampleEnv_simps truthyVar_def
      attempt_flash_def responseTextTrim_def trim_examples exampleParse_examples twoQuestionsJson_def
      mapQuestion_flash_def orElse_def twoQuestionsMapped_def)

lemma primaryDown_primary:
  "attempt (primaryDown r) ''k'' t
     (primaryRequest (primaryDown r) pdfText numQuestions difficulty t examContext) =
     Inl (Exn ''ApiError'' ''quota exceeded'')"
  by (simp add: attempt_def primaryDown_def exampleEnv_simps request_models)

lemma primaryDown_secondary_ok:
  "attempt (primaryDown (Inr (Some twoQuestionsText))) ''k'' t
     (secondaryRequest (primaryDown (Inr (Some twoQuestionsText))) pdfText numQuestions difficulty t examContext) =
     Inr (twoQuestionsMarked t (getMarksForType t))"
  by (simp add: attempt_def primaryDown_def exampleEnv_simps request_models responseTextTrim_def
      trim_examples processResponse_twoQuestions)

lemma primaryDown_secondary_bad:
  "attempt (primaryDown (Inr (Some ''oops''))) ''k'' t
     (secondaryRequest (primaryDown (Inr (Some ''oops''))) pdfText numQuestions difficulty t examContext) =
     Inl (Exn ''SyntaxError'' ''Unexpected token'')"
  by (simp add: attempt_def primaryDown_def exampleEnv_simps request_models responseTextTrim_def
      trim_examples processResponse_def exampleParse_examples)

lemma quizPrompt_take:
  "quizPrompt env pdfText numQuestions difficulty questionType examContext instructions =
     promptHead env numQuestions difficulty questionType examContext instructions @
     take 30000 pdfText @ promptTail"
  by (simp add: quizPrompt_def substring_from_0)

lemma generateQuiz_requests:
  "set (snd (generateQuiz env pdfText numQuestions difficulty questionType examContext))
     \<subseteq> {primaryRequest env pdfText numQuestions difficulty questionType examContext,
         secondaryRequest env pdfText numQuestions difficulty questionType examContext}"
proof (cases "getApiKey env")
  case (Inl e)
  then show ?thesis by (simp add: generateQuiz_without_key)
next
  case (Inr apiKey)
  then show ?thesis
    by (simp add: generateQuiz_with_key split: sum.splits)
qed

lemma generateQuiz_flash_requests:
  "set (snd (generateQuiz_flash env pdfText numQuestions difficulty questionType examContext))
     \<subseteq> {quizRequest ''gemini-flash-latest''
          (quizPrompt env pdfText numQuestions difficulty questionType examContext
             (typeInstructions_flash questionType))}"
  by (simp add: generateQuiz_flash_def Let_def split: option.splits sum.splits)

lemma quizPrompt_truncated_input:
  "quizPrompt env (take 30000 pdfText) numQuestions difficulty questionType examContext instructions =
   quizPrompt env pdfText numQuestions difficulty questionType examContext instructions"
  by (simp add: quizPrompt_take)

lemma flash_twoQuestions_requests:
  "snd (generateQuiz_flash (answering twoQuestionsText) pdfText numQuestions difficulty t examContext) =
     [quizRequest ''gemini-flash-latest''
        (quizPrompt (answering twoQuestionsText) pdfText numQuestions difficulty t examContext
           (typeInstructions_flash t))]"
  by (simp add: generateQuiz_flash_def Let_def answering_def exampleEnv_simps truthyVar_def
      attempt_flash_def responseTextTrim_def trim_examples exampleParse_examples twoQuestionsJson_def
      mapQuestion_flash_def orElse_def quizRequest_def)

lemma evaluateAnswer_with_key:
  assumes "getApiKey env = Inr apiKey"
  shows "evaluateAnswer env questionText modelAnswerText imageBase64 mimeType maxMarks =
     (case bindE (generateContent env apiKey
                    (evaluationRequest env questionText modelAnswerText imageBase64 mimeType maxMarks))
             (\<lambda>response. bindE (responseTextTrim response) (\<lambda>jsonString. JSON_parse env jsonString)) of
        Inr result \<Rightarrow>
          (Inr result, [evaluationRequest env questionText modelAnswerText imageBase64 mimeType maxMarks])
      | Inl error \<Rightarrow>
          (Inl (Exn ''Error'' (evaluationFailedMessage (message error))),
           [evaluationRequest env questionText modelAnswerText imageBase64 mimeType maxMarks]))"
  unfolding evaluateAnswer_def Let_def using assms by simp

lemma answering_simps:
  "getApiKey (answering t) = Inr ''k''"
  "generateContent (answering t) k req = Inr (Some t)"
  "JSON_parse (answering t) = exampleParse"
  by (simp_all add: answering_def exampleEnv_simps)

lemma answering_evaluate:
  "evaluateAnswer (answering t) questionText modelAnswerText imageBase64 mimeType maxMarks =
     (case exampleParse (trim t) of
        Inr result \<Rightarrow>
          (Inr result, [evaluationRequest (answering t) questionText modelAnswerText imageBase64 mimeType maxMarks])
      | Inl error \<Rightarrow>
          (Inl (Exn ''Error'' (evaluationFailedMessage (message error))),
           [evaluationRequest (answering t) questionText modelAnswerText imageBase64 mimeType maxMarks]))"
  by (simp add: evaluateAnswer_with_key [where apiKey = "''k''"] answering_simps responseTextTrim_def)

lemma processResponse_invalid_format:
  assumes parse: "JSON_parse env s = Inr parsed"
    and nonnull: "parsed \<noteq> Null" "parsed \<noteq> Undefined"
    and noarr: "\<And>items. getProp parsed ''questions'' \<noteq> Inr (Arr items)"
  shows "processResponse env questionType s = Inl (Exn ''Error'' invalidFormatMessage)"
proof -
  from getProp_defined [OF nonnull] obtain v where v: "getProp parsed ''questions'' = Inr v"
    by blast
  with noarr have "\<not> Array_isArray v"
    by (cases v) auto
  with parse v show ?thesis
    by (simp add: processResponse_def)
qed

lemma answering_attempt:
  "attempt (answering t) ''k'' questionType req = processResponse (answering t) questionType (trim t)"
  by (simp add: attempt_of_response answering_simps)

lemma answering_generateQuiz:
  "generateQuiz (answering t) pdfText numQuestions difficulty questionType examContext =
     (case processResponse (answering t) questionType (trim t) of
        Inr qs \<Rightarrow>
          (Inr qs, [primaryRequest (answering t) pdfText numQuestions difficulty questionType examContext])
      | Inl error \<Rightarrow>
          (Inl (Exn ''Error'' (generationFailedMessage
                  (orElseStr (message error) (orElseStr (message error) ''Unknown error'')))),
           [primaryRequest (answering t) pdfText numQuestions difficulty questionType examContext,
            secondaryRequest (answering t) pdfText numQuestions difficulty questionType examContext]))"
  by (simp add: generateQuiz_with_key [where apiKey = "''k''"] answering_simps answering_attempt
      split: sum.splits)

lemma flash_one_question_per_element:
  assumes env: "process env = Some (Some penv)" "truthyVar (Some penv) ''API_KEY'' = Some apiKey"
    and call: "generateContent env apiKey
                 (quizRequest ''gemini-flash-latest''
                    (quizPrompt env pdfText numQuestions difficulty questionType examContext
                       (typeInstructions_flash questionType))) = Inr (Some t)"
    and parse: "JSON_parse env (trim t) = Inr parsed"
    and arr: "getProp parsed ''questions'' = Inr (Arr items)"
    and nonnull: "Null \<notin> set items" "Undefined \<notin> set items"
  shows "\<exists>qs. fst (generateQuiz_flash env pdfText numQuestions difficulty questionType examContext) = Inr qs
            \<and> length qs = length items
            \<and> (\<forall>i<length items. mapQuestion_flash questionType (items ! i) = Inr (qs ! i))"
proof -
  have "\<exists>qs. mapE (mapQuestion_flash questionType) items = Inr qs"
  proof (rule mapE_total)
    fix x assume "x \<in> set items"
    with nonnull have "x \<noteq> Null" "x \<noteq> Undefined" by auto
    then show "\<exists>y. mapQuestion_flash questionType x = Inr y" by (rule mapQuestion_flash_total)
  qed
  then obtain qs where qs: "mapE (mapQuestion_flash questionType) items = Inr qs"
    by blast
  have "fst (generateQuiz_flash env pdfText numQuestions difficulty questionType examContext) = Inr qs"
    using env call parse arr qs
    by (simp add: generateQuiz_flash_def Let_def attempt_flash_def responseTextTrim_def)
  with mapE_Inr_nth [OF qs] show ?thesis by blast
qed

section \<open>Claims about generating the questions\<close>

text \<open>C1. Whatever the model answers, every question that \<open>generateQuiz\<close> returns has as
  \<open>type\<close> the requested \<open>questionType\<close>; the \<open>type\<close> field of the response is never read.
  This holds for the service with two models and for the one with a single model.\<close>

theorem generateQuiz_type_is_requested:
  "(fst (generateQuiz env pdfText numQuestions difficulty questionType examContext) = Inr qs
      \<longrightarrow> (\<forall>q\<in>set qs. type q = questionType))
   \<and> (fst (generateQuiz_flash env pdfText numQuestions difficulty questionType examContext) = Inr qs'
      \<longrightarrow> (\<forall>q\<in>set qs'. type q = questionType))"
proof (intro conjI impI ballI)
  fix q
  assume r: "fst (generateQuiz env pdfText numQuestions difficulty questionType examContext) = Inr qs"
    and q: "q \<in> set qs"
  from generateQuiz_Inr [OF r] obtain apiKey req where "attempt env apiKey questionType req = Inr qs"
    by blast
  from attempt_Inr [OF this] obtain t where "processResponse env questionType (trim t) = Inr qs"
    by blast
  from processResponse_Inr [OF this] obtain items where "mapE (mapQuestion questionType) items = Inr qs"
    by blast
  from mapE_Inr_set [OF this q] obtain x where "mapQuestion questionType x = Inr q"
    by blast
  then show "type q = questionType"
    by (simp add: mapQuestion_Inr)
next
  fix q
  assume r: "fst (generateQuiz_flash env pdfText numQuestions difficulty questionType examContext) = Inr qs'"
    and q: "q \<in> set qs'"
  from generateQuiz_flash_Inr [OF r] obtain apiKey req where "attempt_flash env apiKey questionType req = Inr qs'"
    by blast
  from attempt_flash_Inr [OF this] obtain items where "mapE (mapQuestion_flash questionType) items = Inr qs'"
    by blast
  from mapE_Inr_set [OF this q] obtain x where "mapQuestion_flash questionType x = Inr q"
    by blast
  then show "type q = questionType"
    by (simp add: mapQuestion_flash_Inr)
qed

text \<open>The model claims \<open>Long\<close> for its first question; \<open>MCQ\<close> was requested.\<close>

text \<open>The model claims \<open>Long\<close> for its first question; \<open>MCQ\<close> was requested.\<close>

theorem generateQuiz_type_is_requested_witness:
  "fst (generateQuiz (answering twoQuestionsText) ''abc'' (Finite 5) ''Hard'' ''MCQ'' []) =
     Inr (twoQuestionsMarked ''MCQ'' 1)
   \<and> map type (twoQuestionsMarked ''MCQ'' 1) = [''MCQ'', ''MCQ'']
   \<and> fst (generateQuiz_flash (answering twoQuestionsText) ''abc'' (Finite 5) ''Hard'' ''MCQ'' []) =
     Inr (twoQuestionsMapped ''MCQ'')
   \<and> map type (twoQuestionsMapped ''MCQ'') = [''MCQ'', ''MCQ'']"
proof -
  have h1: "fst (generateQuiz (answering twoQuestionsText) ''abc'' (Finite 5) ''Hard'' ''MCQ'' []) =
     Inr (twoQuestionsMarked ''MCQ'' 1)"
    by (simp add: generateQuiz_twoQuestions getMarksForType_def)
  have h2: "fst (generateQuiz_flash (answering twoQuestionsText) ''abc'' (Finite 5) ''Hard'' ''MCQ'' []) =
     Inr (twoQuestionsMapped ''MCQ'')"
    by (simp add: flash_twoQuestions)
  note inst = generateQuiz_type_is_requested [of "answering twoQuestionsText" "''abc''" "Finite 5"
      "''Hard''" "''MCQ''" "[]" "twoQuestionsMarked ''MCQ'' 1" "twoQuestionsMapped ''MCQ''"]
  from inst h1 have a: "\<forall>q\<in>set (twoQuestionsMarked ''MCQ'' 1). type q = ''MCQ''" by blast
  from inst h2 have b: "\<forall>q\<in>set (twoQuestionsMapped ''MCQ''). type q = ''MCQ''" by blast
  from a have a': "map type (twoQuestionsMarked ''MCQ'' 1) = [''MCQ'', ''MCQ'']"
    by (simp add: twoQuestionsMarked_def)
  from b have b': "map type (twoQuestionsMapped ''MCQ'') = [''MCQ'', ''MCQ'']"
    by (simp add: twoQuestionsMapped_def)
  from h1 h2 a' b' show ?thesis by blast
qed

text \<open>C2. Every question that \<open>generateQuiz\<close> returns has the marks of the table for the
  requested type: MCQ 1, FillBlanks 1, VeryShort 2, Short 3, CaseBased 4, ExtractBased 4,
  Long 5 and 1 for any other type. The marks are computed by \<open>getMarksForType\<close> from the
  requested type; a \<open>marks\<close> field of the response is never read.\<close>

text \<open>C2. Every question that \<open>generateQuiz\<close> returns has the marks of the table for the
  requested type: MCQ 1, FillBlanks 1, VeryShort 2, Short 3, CaseBased 4, ExtractBased 4,
  Long 5 and 1 for any other type. The marks are computed by \<open>getMarksForType\<close> from the
  requested type; a \<open>marks\<close> field of the response is never read.\<close>

theorem generateQuiz_marks_from_table:
  "(fst (generateQuiz env pdfText numQuestions difficulty questionType examContext) = Inr qs
      \<longrightarrow> (\<forall>q\<in>set qs. marks q = getMarksForType questionType))
   \<and> getMarksForType ''MCQ'' = 1
   \<and> getMarksForType ''FillBlanks'' = 1
   \<and> getMarksForType ''VeryShort'' = 2
   \<and> getMarksForType ''Short'' = 3
   \<and> getMarksForType ''CaseBased'' = 4
   \<and> getMarksForType ''ExtractBased'' = 4
   \<and> getMarksForType ''Long'' = 5
   \<and> (questionType \<notin> {''MCQ'', ''FillBlanks'', ''VeryShort'', ''Short'', ''CaseBased'',
                         ''ExtractBased'', ''Long''}
      \<longrightarrow> getMarksForType questionType = 1)"
proof -
  have "\<forall>q\<in>set qs. marks q = getMarksForType questionType"
    if r: "fst (generateQuiz env pdfText numQuestions difficulty questionType examContext) = Inr qs"
  proof
    fix q assume q: "q \<in> set qs"
    from generateQuiz_Inr [OF r] obtain apiKey req where "attempt env apiKey questionType req = Inr qs"
      by blast
    from attempt_Inr [OF this] obtain t where "processResponse env questionType (trim t) = Inr qs"
      by blast
    from processResponse_Inr [OF this] obtain items where "mapE (mapQuestion questionType) items = Inr qs"
      by blast
    from mapE_Inr_set [OF this q] obtain x where "mapQuestion questionType x = Inr q"
      by blast
    then show "marks q = getMarksForType questionType"
      by (simp add: mapQuestion_Inr)
  qed
  moreover have "getMarksForType ''MCQ'' = 1" "getMarksForType ''FillBlanks'' = 1"
    "getMarksForType ''VeryShort'' = 2" "getMarksForType ''Short'' = 3"
    "getMarksForType ''CaseBased'' = 4" "getMarksForType ''ExtractBased'' = 4"
    "getMarksForType ''Long'' = 5"
    by (simp_all add: getMarksForType_def)
  moreover have "getMarksForType questionType = 1"
    if "questionType \<notin> {''MCQ'', ''FillBlanks'', ''VeryShort'', ''Short'', ''CaseBased'',
                         ''ExtractBased'', ''Long''}"
    using that by (simp add: getMarksForType_def)
  ultimately show ?thesis by blast
qed

text \<open>The model claims 9 marks for its first question; the table gives 5 for \<open>Long\<close>, and 1
  for \<open>Brief\<close>, which is not in the table.\<close>

text \<open>The model claims 9 marks for its first question; the table gives 5 for \<open>Long\<close>, and 1
  for \<open>Brief\<close>, which is not in the table.\<close>

theorem generateQuiz_marks_from_table_witness:
  "fst (generateQuiz (answering twoQuestionsText) ''abc'' (Finite 2) ''Easy'' ''Long'' ''CBSE'') =
     Inr (twoQuestionsMarked ''Long'' 5)
   \<and> map marks (twoQuestionsMarked ''Long'' 5) = [5, 5]
   \<and> fst (generateQuiz (answering twoQuestionsText) ''abc'' (Finite 2) ''Easy'' ''Brief'' ''CBSE'') =
     Inr (twoQuestionsMarked ''Brief'' 1)
   \<and> ''Brief'' \<notin> {''MCQ'', ''FillBlanks'', ''VeryShort'', ''Short'', ''CaseBased'',
                    ''ExtractBased'', ''Long''}
   \<and> getMarksForType ''Brief'' = 1"
proof -
  note long = generateQuiz_marks_from_table [of "answering twoQuestionsText" "''abc''" "Finite 2"
      "''Easy''" "''Long''" "''CBSE''" "twoQuestionsMarked ''Long'' 5"]
  note brief = generateQuiz_marks_from_table [of "answering twoQuestionsText" "''abc''" "Finite 2"
      "''Easy''" "''Brief''" "''CBSE''" "twoQuestionsMarked ''Brief'' 1"]
  have nb: "''Brief'' \<notin> {''MCQ'', ''FillBlanks'', ''VeryShort'', ''Short'', ''CaseBased'',
                    ''ExtractBased'', ''Long''}"
    by simp
  from brief nb have b1: "getMarksForType ''Brief'' = 1" by blast
  from long have l5: "getMarksForType ''Long'' = 5" by blast
  have h1: "fst (generateQuiz (answering twoQuestionsText) ''abc'' (Finite 2) ''Easy'' ''Long'' ''CBSE'') =
     Inr (twoQuestionsMarked ''Long'' 5)"
    by (simp add: generateQuiz_twoQuestions l5)
  have h2: "fst (generateQuiz (answering twoQuestionsText) ''abc'' (Finite 2) ''Easy'' ''Brief'' ''CBSE'') =
     Inr (twoQuestionsMarked ''Brief'' 1)"
    by (simp add: generateQuiz_twoQuestions b1)
  from long h1 l5 have "\<forall>q\<in>set (twoQuestionsMarked ''Long'' 5). marks q = 5" by simp
  then have m: "map marks (twoQuestionsMarked ''Long'' 5) = [5, 5]"
    by (simp add: twoQuestionsMarked_def)
  from h1 h2 m nb b1 show ?thesis by blast
qed

text \<open>C7. Every request that \<open>generateQuiz\<close> sends carries the prompt in which the source
  text appears as \<open>pdfText.substring(0, 30000)\<close> between two parts that do not depend on the
  source text. That substring is the first 30000 code units of the text: it has length
  \<open>min 30000 (length pdfText)\<close>, and it is the whole text exactly when the text has at most
  30000 code units. Nothing beyond the first 30000 code units has any effect: the call on
  the truncated text has the same result and sends the same requests. The same holds for
  the service with a single model.\<close>

theorem sourceText_truncated:
  "(\<forall>r\<in>set (snd (generateQuiz env pdfText numQuestions difficulty questionType examContext)).
      contents r = Prompt
        (promptHead env numQuestions difficulty questionType examContext
           (typeInstructions questionType examContext) @
         substring pdfText 0 30000 @ promptTail))
   \<and> (\<forall>r\<in>set (snd (generateQuiz_flash env pdfText numQuestions difficulty questionType examContext)).
      contents r = Prompt
        (promptHead env numQuestions difficulty questionType examContext
           (typeInstructions_flash questionType) @
         substring pdfText 0 30000 @ promptTail))
   \<and> substring pdfText 0 30000 = take 30000 pdfText
   \<and> length (substring pdfText 0 30000) = min 30000 (length pdfText)
   \<and> (substring pdfText 0 30000 = pdfText) = (length pdfText \<le> 30000)
   \<and> generateQuiz env (take 30000 pdfText) numQuestions difficulty questionType examContext =
     generateQuiz env pdfText numQuestions difficulty questionType examContext
   \<and> generateQuiz_flash env (take 30000 pdfText) numQuestions difficulty questionType examContext =
     generateQuiz_flash env pdfText numQuestions difficulty questionType examContext"
proof (intro conjI ballI)
  fix r
  assume "r \<in> set (snd (generateQuiz env pdfText numQuestions difficulty questionType examContext))"
  with generateQuiz_requests [of env pdfText numQuestions difficulty questionType examContext]
  have "r = primaryRequest env pdfText numQuestions difficulty questionType examContext
      \<or> r = secondaryRequest env pdfText numQuestions difficulty questionType examContext"
    by blast
  then show "contents r = Prompt
        (promptHead env numQuestions difficulty questionType examContext
           (typeInstructions questionType examContext) @
         substring pdfText 0 30000 @ promptTail)"
    by (auto simp: primaryRequest_def secondaryRequest_def quizRequest_def quizPrompt_def)
next
  fix r
  assume "r \<in> set (snd (generateQuiz_flash env pdfText numQuestions difficulty questionType examContext))"
  with generateQuiz_flash_requests [of env pdfText numQuestions difficulty questionType examContext]
  have "r = quizRequest ''gemini-flash-latest''
          (quizPrompt env pdfText numQuestions difficulty questionType examContext
             (typeInstructions_flash questionType))"
    by blast
  then show "contents r = Prompt
        (promptHead env numQuestions difficulty questionType examContext
           (typeInstructions_flash questionType) @
         substring pdfText 0 30000 @ promptTail)"
    by (simp add: quizRequest_def quizPrompt_def)
next
  show "substring pdfText 0 30000 = take 30000 pdfText"
    by (rule substring_from_0)
next
  show "length (substring pdfText 0 30000) = min 30000 (length pdfText)"
    by (simp add: substring_from_0 min.commute)
next
  show "(substring pdfText 0 30000 = pdfText) = (length pdfText \<le> 30000)"
    by (simp add: substring_from_0)
next
  show "generateQuiz env (take 30000 pdfText) numQuestions difficulty questionType examContext =
     generateQuiz env pdfText numQuestions difficulty questionType examContext"
    unfolding generateQuiz_def quizPrompt_truncated_input by (rule refl)
next
  show "generateQuiz_flash env (take 30000 pdfText) numQuestions difficulty questionType examContext =
     generateQuiz_flash env pdfText numQuestions difficulty questionType examContext"
    unfolding generateQuiz_flash_def quizPrompt_truncated_input by (rule refl)
qed

text \<open>A source text of 30001 code units: the request carries 30000 of them.\<close>

theorem sourceText_truncated_witness:
  "primaryRequest (answering twoQuestionsText) (replicate 30001 (CHR ''x'')) (Finite 5) ''Hard'' ''MCQ'' []
     \<in> set (snd (generateQuiz (answering twoQuestionsText) (replicate 30001 (CHR ''x'')) (Finite 5)
                   ''Hard'' ''MCQ'' []))
   \<and> contents (primaryRequest (answering twoQuestionsText) (replicate 30001 (CHR ''x'')) (Finite 5)
                 ''Hard'' ''MCQ'' []) =
     Prompt (promptHead (answering twoQuestionsText) (Finite 5) ''Hard'' ''MCQ'' []
               (typeInstructions ''MCQ'' []) @
             replicate 30000 (CHR ''x'') @ promptTail)
   \<and> quizRequest ''gemini-flash-latest''
       (quizPrompt (answering twoQuestionsText) (replicate 30001 (CHR ''x'')) (Finite 5) ''Hard'' ''MCQ'' []
          (typeInstructions_flash ''MCQ''))
     \<in> set (snd (generateQuiz_flash (answering twoQuestionsText) (replicate 30001 (CHR ''x'')) (Finite 5)
                   ''Hard'' ''MCQ'' []))
   \<and> contents (quizRequest ''gemini-flash-latest''
       (quizPrompt (answering twoQuestionsText) (replicate 30001 (CHR ''x'')) (Finite 5) ''Hard'' ''MCQ'' []
          (typeInstructions_flash ''MCQ''))) =
     Prompt (promptHead (answering twoQuestionsText) (Finite 5) ''Hard'' ''MCQ'' []
               (typeInstructions_flash ''MCQ'') @
             replicate 30000 (CHR ''x'') @ promptTail)"
proof -
  note inst = sourceText_truncated [of "answering twoQuestionsText" "replicate 30001 (CHR ''x'')"
      "Finite 5" "''Hard''" "''MCQ''" "[]"]
  have m1: "primaryRequest (answering twoQuestionsText) (replicate 30001 (CHR ''x'')) (Finite 5) ''Hard'' ''MCQ'' []
     \<in> set (snd (generateQuiz (answering twoQuestionsText) (replicate 30001 (CHR ''x'')) (Finite 5)
                   ''Hard'' ''MCQ'' []))"
    by (simp add: generateQuiz_twoQuestions)
  have m2: "quizRequest ''gemini-flash-latest''
       (quizPrompt (answering twoQuestionsText) (replicate 30001 (CHR ''x'')) (Finite 5) ''Hard'' ''MCQ'' []
          (typeInstructions_flash ''MCQ''))
     \<in> set (snd (generateQuiz_flash (answering twoQuestionsText) (replicate 30001 (CHR ''x'')) (Finite 5)
                   ''Hard'' ''MCQ'' []))"
    by (simp add: flash_twoQuestions_requests)
  from inst have s: "substring (replicate 30001 (CHR ''x'')) 0 30000 = take 30000 (replicate 30001 (CHR ''x''))"
    by blast
  have t: "take 30000 (replicate 30001 (CHR ''x'')) = replicate 30000 (CHR ''x'')"
    by simp
  from inst m1 have c1: "contents (primaryRequest (answering twoQuestionsText) (replicate 30001 (CHR ''x''))
                 (Finite 5) ''Hard'' ''MCQ'' []) =
     Prompt (promptHead (answering twoQuestionsText) (Finite 5) ''Hard'' ''MCQ'' []
               (typeInstructions ''MCQ'' []) @
             substring (replicate 30001 (CHR ''x'')) 0 30000 @ promptTail)"
    by blast
  from inst m2 have c2: "contents (quizRequest ''gemini-flash-latest''
       (quizPrompt (answering twoQuestionsText) (replicate 30001 (CHR ''x'')) (Finite 5) ''Hard'' ''MCQ'' []
          (typeInstructions_flash ''MCQ''))) =
     Prompt (promptHead (answering twoQuestionsText) (Finite 5) ''Hard'' ''MCQ'' []
               (typeInstructions_flash ''MCQ'') @
             substring (replicate 30001 (CHR ''x'')) 0 30000 @ promptTail)"
    by blast
  from m1 m2 c1 c2 show ?thesis
    unfolding s t by blast
qed

text \<open>C10, as stated, fails: a \<open>questions\<close> array with the element \<open>null\<close> is an array of one
  element, and no question is returned for it. The first property read of the mapping throws
  on \<open>null\<close>, both attempts fail, and so does the operation.\<close>

theorem null_element_counterexample:
  "JSON_parse (answering nullQuestionText) (trim nullQuestionText) = Inr (Obj [(''questions'', Arr [Null])])
   \<and> getProp (Obj [(''questions'', Arr [Null])]) ''questions'' = Inr (Arr [Null])
   \<and> generateQuiz (answering nullQuestionText) ''abc'' (Finite 1) ''Hard'' ''MCQ'' [] =
     (Inl (Exn ''Error'' (generationFailedMessage (nullishReadMessage ''null'' ''question''))),
      [primaryRequest (answering nullQuestionText) ''abc'' (Finite 1) ''Hard'' ''MCQ'' [],
       secondaryRequest (answering nullQuestionText) ''abc'' (Finite 1) ''Hard'' ''MCQ'' []])"
proof -
  have j: "JSON_parse (answering nullQuestionText) (trim nullQuestionText) = Inr (Obj [(''questions'', Arr [Null])])"
    by (simp add: answering_simps trim_examples exampleParse_examples)
  have p: "processResponse (answering nullQuestionText) ''MCQ'' nullQuestionText =
     Inl (Exn ''TypeError'' (nullishReadMessage ''null'' ''question''))"
    by (simp add: processResponse_def answering_simps exampleParse_examples mapQuestion_def)
  have ne: "nullishReadMessage ''null'' ''question'' \<noteq> []"
    by (simp add: nullishReadMessage_def)
  have g: "generateQuiz (answering nullQuestionText) ''abc'' (Finite 1) ''Hard'' ''MCQ'' [] =
     (Inl (Exn ''Error'' (generationFailedMessage (nullishReadMessage ''null'' ''question''))),
      [primaryRequest (answering nullQuestionText) ''abc'' (Finite 1) ''Hard'' ''MCQ'' [],
       secondaryRequest (answering nullQuestionText) ''abc'' (Finite 1) ''Hard'' ''MCQ'' []])"
    using ne by (simp add: answering_generateQuiz trim_examples p orElseStr_def)
  from j g show ?thesis by simp
qed

text \<open>C10, amended. The response that counts is the primary model's, or the secondary
  model's when the attempt on the primary one failed. If its trimmed text parses to a body
  whose \<open>questions\<close> is an array without \<open>null\<close> elements (and without \<open>undefined\<close>, which
  no JSON text yields), \<open>generateQuiz\<close> returns one question
  per element, in the order of the array: the result has the length of the array and its
  \<open>i\<close>-th question is the mapping of the \<open>i\<close>-th element. \<open>numQuestions\<close> plays no part, and
  an empty array gives the empty result. The lemma \<open>flash_one_question_per_element\<close> is the
  same statement for the service with a single model.\<close>

theorem one_question_per_element:
  assumes key: "getApiKey env = Inr apiKey"
    and used: "req = primaryRequest env pdfText numQuestions difficulty questionType examContext
               \<or> (req = secondaryRequest env pdfText numQuestions difficulty questionType examContext
                  \<and> attempt env apiKey questionType
                       (primaryRequest env pdfText numQuestions difficulty questionType examContext)
                     = Inl error)"
    and call: "generateContent env apiKey req = Inr (Some t)"
    and parse: "JSON_parse env (trim t) = Inr parsed"
    and arr: "getProp parsed ''questions'' = Inr (Arr items)"
    and nonnull: "Null \<notin> set items" "Undefined \<notin> set items"
  shows "\<exists>qs. fst (generateQuiz env pdfText numQuestions difficulty questionType examContext) = Inr qs
            \<and> length qs = length items
            \<and> (\<forall>i<length items. mapQuestion questionType (items ! i) = Inr (qs ! i))"
proof -
  have "\<exists>qs. mapE (mapQuestion questionType) items = Inr qs"
  proof (rule mapE_total)
    fix x assume "x \<in> set items"
    with nonnull have "x \<noteq> Null" "x \<noteq> Undefined" by auto
    then show "\<exists>y. mapQuestion questionType x = Inr y" by (rule mapQuestion_total)
  qed
  then obtain qs where qs: "mapE (mapQuestion questionType) items = Inr qs"
    by blast
  have att: "attempt env apiKey questionType req = Inr qs"
    by (simp add: attempt_of_response [OF call] processResponse_of_items [OF parse arr] qs)
  from used have "fst (generateQuiz env pdfText numQuestions difficulty questionType examContext) = Inr qs"
  proof
    assume "req = primaryRequest env pdfText numQuestions difficulty questionType examContext"
    with att show ?thesis
      by (simp add: generateQuiz_with_key [OF key])
  next
    assume "req = secondaryRequest env pdfText numQuestions difficulty questionType examContext
            \<and> attempt env apiKey questionType
                 (primaryRequest env pdfText numQuestions difficulty questionType examContext)
               = Inl error"
    with att show ?thesis
      by (simp add: generateQuiz_with_key [OF key])
  qed
  with mapE_Inr_nth [OF qs] show ?thesis by blast
qed

text \<open>Five questions are requested: an empty array gives the empty result, an array of two
  elements gives two questions.\<close>

theorem one_question_per_element_witness:
  "getApiKey (answering noQuestionsText) = Inr ''k''
   \<and> generateContent (answering noQuestionsText) ''k''
        (primaryRequest (answering noQuestionsText) ''abc'' (Finite 5) ''Hard'' ''MCQ'' [])
      = Inr (Some noQuestionsText)
   \<and> JSON_parse (answering noQuestionsText) (trim noQuestionsText) = Inr (Obj [(''questions'', Arr [])])
   \<and> getProp (Obj [(''questions'', Arr [])]) ''questions'' = Inr (Arr [])
   \<and> fst (generateQuiz (answering noQuestionsText) ''abc'' (Finite 5) ''Hard'' ''MCQ'' []) = Inr []
   \<and> fst (generateQuiz (answering twoQuestionsText) ''abc'' (Finite 5) ''Hard'' ''MCQ'' []) =
       Inr (twoQuestionsMarked ''MCQ'' 1)
   \<and> length (twoQuestionsMarked ''MCQ'' 1) = 2"
proof -
  have key: "getApiKey (answering noQuestionsText) = Inr ''k''"
    by (simp add: answering_simps)
  have used: "primaryRequest (answering noQuestionsText) ''abc'' (Finite 5) ''Hard'' ''MCQ'' []
      = primaryRequest (answering noQuestionsText) ''abc'' (Finite 5) ''Hard'' ''MCQ'' []
    \<or> (primaryRequest (answering noQuestionsText) ''abc'' (Finite 5) ''Hard'' ''MCQ'' []
        = secondaryRequest (answering noQuestionsText) ''abc'' (Finite 5) ''Hard'' ''MCQ'' []
       \<and> attempt (answering noQuestionsText) ''k'' ''MCQ''
            (primaryRequest (answering noQuestionsText) ''abc'' (Finite 5) ''Hard'' ''MCQ'' [])
          = Inl (Exn [] []))"
    by simp
  have call: "generateContent (answering noQuestionsText) ''k''
        (primaryRequest (answering noQuestionsText) ''abc'' (Finite 5) ''Hard'' ''MCQ'' [])
      = Inr (Some noQuestionsText)"
    by (simp add: answering_simps)
  have parse: "JSON_parse (answering noQuestionsText) (trim noQuestionsText) = Inr (Obj [(''questions'', Arr [])])"
    by (simp add: answering_simps trim_examples exampleParse_examples)
  have arr: "getProp (Obj [(''questions'', Arr [])]) ''questions'' = Inr (Arr [])"
    by simp
  have nonnull: "Null \<notin> set []" "Undefined \<notin> set []"
    by simp_all
  from one_question_per_element [OF key used call parse arr nonnull]
  have empty: "fst (generateQuiz (answering noQuestionsText) ''abc'' (Finite 5) ''Hard'' ''MCQ'' []) = Inr []"
    by simp
  have key2: "getApiKey (answering twoQuestionsText) = Inr ''k''"
    by (simp add: answering_simps)
  have used2: "primaryRequest (answering twoQuestionsText) ''abc'' (Finite 5) ''Hard'' ''MCQ'' []
      = primaryRequest (answering twoQuestionsText) ''abc'' (Finite 5) ''Hard'' ''MCQ'' []
    \<or> (primaryRequest (answering twoQuestionsText) ''abc'' (Finite 5) ''Hard'' ''MCQ'' []
        = secondaryRequest (answering twoQuestionsText) ''abc'' (Finite 5) ''Hard'' ''MCQ'' []
       \<and> attempt (answering twoQuestionsText) ''k'' ''MCQ''
            (primaryRequest (answering twoQuestionsText) ''abc'' (Finite 5) ''Hard'' ''MCQ'' [])
          = Inl (Exn [] []))"
    by simp
  have call2: "generateContent (answering twoQuestionsText) ''k''
        (primaryRequest (answering twoQuestionsText) ''abc'' (Finite 5) ''Hard'' ''MCQ'' [])
      = Inr (Some twoQuestionsText)"
    by (simp add: answering_simps)
  have parse2: "JSON_parse (answering twoQuestionsText) (trim twoQuestionsText) = Inr twoQuestionsJson"
    by (simp add: answering_simps trim_examples exampleParse_examples)
  have arr2: "getProp twoQuestionsJson ''questions'' = Inr (Arr [
       Obj [(''type'', Str ''Long''), (''question'', Str ''Q1''), (''marks'', Num (Finite 9))],
       Obj [(''question'', Str ''Q2''),
            (''options'', Arr [Str ''a'', Str ''b'', Str ''c'', Str ''d'']),
            (''correctAnswer'', Str ''a'')]])"
    by (simp add: twoQuestionsJson_def)
  have nonnull2: "Null \<notin> set [
       Obj [(''type'', Str ''Long''), (''question'', Str ''Q1''), (''marks'', Num (Finite 9))],
       Obj [(''question'', Str ''Q2''),
            (''options'', Arr [Str ''a'', Str ''b'', Str ''c'', Str ''d'']),
            (''correctAnswer'', Str ''a'')]]"
    "Undefined \<notin> set [
       Obj [(''type'', Str ''Long''), (''question'', Str ''Q1''), (''marks'', Num (Finite 9))],
       Obj [(''question'', Str ''Q2''),
            (''options'', Arr [Str ''a'', Str ''b'', Str ''c'', Str ''d'']),
            (''correctAnswer'', Str ''a'')]]"
    by simp_all
  from one_question_per_element [OF key2 used2 call2 parse2 arr2 nonnull2]
  obtain qs where qs: "fst (generateQuiz (answering twoQuestionsText) ''abc'' (Finite 5) ''Hard'' ''MCQ'' []) = Inr qs"
    and len: "length qs = 2"
    by auto
  have two: "fst (generateQuiz (answering twoQuestionsText) ''abc'' (Finite 5) ''Hard'' ''MCQ'' []) =
       Inr (twoQuestionsMarked ''MCQ'' 1)"
    by (simp add: generateQuiz_twoQuestions getMarksForType_def)
  with qs len have "length (twoQuestionsMarked ''MCQ'' 1) = 2"
    by simp
  with key call parse arr empty two show ?thesis by blast
qed

section \<open>Claims about the two models\<close>

text \<open>C3. With an API key, if the attempt on the primary model fails for whatever reason (the
  call throws, the response has no text, the text is no JSON, the shape is invalid, an element
  cannot be mapped) and the attempt on the secondary model yields questions, then
  \<open>generateQuiz\<close> returns exactly these questions and no error, having sent two requests: the
  primary one and then the same request with only the model identifier replaced.\<close>

theorem fallback_to_secondary:
  assumes key: "getApiKey env = Inr apiKey"
    and first: "attempt env apiKey questionType
                  (primaryRequest env pdfText numQuestions difficulty questionType examContext) = Inl error"
    and second: "attempt env apiKey questionType
                  (secondaryRequest env pdfText numQuestions difficulty questionType examContext) = Inr qs"
  shows "generateQuiz env pdfText numQuestions difficulty questionType examContext =
           (Inr qs, [primaryRequest env pdfText numQuestions difficulty questionType examContext,
                     secondaryRequest env pdfText numQuestions difficulty questionType examContext])
         \<and> secondaryRequest env pdfText numQuestions difficulty questionType examContext =
           (primaryRequest env pdfText numQuestions difficulty questionType examContext)
             \<lparr> model := ''gemini-2.5-flash'' \<rparr>"
proof
  show "generateQuiz env pdfText numQuestions difficulty questionType examContext =
           (Inr qs, [primaryRequest env pdfText numQuestions difficulty questionType examContext,
                     secondaryRequest env pdfText numQuestions difficulty questionType examContext])"
    by (simp add: generateQuiz_with_key [OF key] first second)
next
  show "secondaryRequest env pdfText numQuestions difficulty questionType examContext =
           (primaryRequest env pdfText numQuestions difficulty questionType examContext)
             \<lparr> model := ''gemini-2.5-flash'' \<rparr>"
    by (simp add: primaryRequest_def secondaryRequest_def quizRequest_def)
qed

text \<open>The primary model is out of quota and the secondary one answers with two questions.\<close>

theorem fallback_to_secondary_witness:
  "getApiKey (primaryDown (Inr (Some twoQuestionsText))) = Inr ''k''
   \<and> attempt (primaryDown (Inr (Some twoQuestionsText))) ''k'' ''Short''
        (primaryRequest (primaryDown (Inr (Some twoQuestionsText))) ''abc'' (Finite 2) ''Easy'' ''Short'' [])
      = Inl (Exn ''ApiError'' ''quota exceeded'')
   \<and> attempt (primaryDown (Inr (Some twoQuestionsText))) ''k'' ''Short''
        (secondaryRequest (primaryDown (Inr (Some twoQuestionsText))) ''abc'' (Finite 2) ''Easy'' ''Short'' [])
      = Inr (twoQuestionsMarked ''Short'' 3)
   \<and> generateQuiz (primaryDown (Inr (Some twoQuestionsText))) ''abc'' (Finite 2) ''Easy'' ''Short'' [] =
       (Inr (twoQuestionsMarked ''Short'' 3),
        [primaryRequest (primaryDown (Inr (Some twoQuestionsText))) ''abc'' (Finite 2) ''Easy'' ''Short'' [],
         secondaryRequest (primaryDown (Inr (Some twoQuestionsText))) ''abc'' (Finite 2) ''Easy'' ''Short'' []])"
proof -
  have key: "getApiKey (primaryDown (Inr (Some twoQuestionsText))) = Inr ''k''"
    by (simp add: primaryDown_def exampleEnv_simps)
  have first: "attempt (primaryDown (Inr (Some twoQuestionsText))) ''k'' ''Short''
        (primaryRequest (primaryDown (Inr (Some twoQuestionsText))) ''abc'' (Finite 2) ''Easy'' ''Short'' [])
      = Inl (Exn ''ApiError'' ''quota exceeded'')"
    by (rule primaryDown_primary)
  have second: "attempt (primaryDown (Inr (Some twoQuestionsText))) ''k'' ''Short''
        (secondaryRequest (primaryDown (Inr (Some twoQuestionsText))) ''abc'' (Finite 2) ''Easy'' ''Short'' [])
      = Inr (twoQuestionsMarked ''Short'' 3)"
    by (simp add: primaryDown_secondary_ok getMarksForType_def)
  from fallback_to_secondary [OF key first second] key first second show ?thesis by simp
qed

text \<open>C4. With an API key, if both attempts fail, \<open>generateQuiz\<close> fails with an \<open>Error\<close> whose
  message is not empty: \<open>AI Generation Failed: \<close>, then the message of the secondary failure
  when that is not empty, else the message of the primary failure when that is not empty, else
  \<open>Unknown error\<close>, then the advice to check key and quota. Exactly two requests were sent:
  there is no third attempt.\<close>

theorem both_models_fail:
  assumes key: "getApiKey env = Inr apiKey"
    and first: "attempt env apiKey questionType
                  (primaryRequest env pdfText numQuestions difficulty questionType examContext) = Inl error"
    and second: "attempt env apiKey questionType
                  (secondaryRequest env pdfText numQuestions difficulty questionType examContext) = Inl retryError"
  shows "\<exists>msg. generateQuiz env pdfText numQuestions difficulty questionType examContext =
           (Inl (Exn ''Error'' msg),
            [primaryRequest env pdfText numQuestions difficulty questionType examContext,
             secondaryRequest env pdfText numQuestions difficulty questionType examContext])
         \<and> msg \<noteq> []
         \<and> msg = ''AI Generation Failed: '' @
                 (if message retryError \<noteq> [] then message retryError
                  else if message error \<noteq> [] then message error
                  else ''Unknown error'') @
                 ''. Please check your API Key and Quota.''"
  by (simp add: generateQuiz_with_key [OF key] first second generationFailedMessage_def orElseStr_def)

text \<open>The primary model is out of quota and the secondary one answers with a text that is
  no JSON: the message carries the secondary failure.\<close>

theorem both_models_fail_witness:
  "generateQuiz (primaryDown (Inr (Some ''oops''))) ''abc'' (Finite 2) ''Easy'' ''Short'' [] =
       (Inl (Exn ''Error'' ''AI Generation Failed: Unexpected token. Please check your API Key and Quota.''),
        [primaryRequest (primaryDown (Inr (Some ''oops''))) ''abc'' (Finite 2) ''Easy'' ''Short'' [],
         secondaryRequest (primaryDown (Inr (Some ''oops''))) ''abc'' (Finite 2) ''Easy'' ''Short'' []])"
proof -
  have key: "getApiKey (primaryDown (Inr (Some ''oops''))) = Inr ''k''"
    by (simp add: primaryDown_def exampleEnv_simps)
  have first: "attempt (primaryDown (Inr (Some ''oops''))) ''k'' ''Short''
        (primaryRequest (primaryDown (Inr (Some ''oops''))) ''abc'' (Finite 2) ''Easy'' ''Short'' [])
      = Inl (Exn ''ApiError'' ''quota exceeded'')"
    by (rule primaryDown_primary)
  have second: "attempt (primaryDown (Inr (Some ''oops''))) ''k'' ''Short''
        (secondaryRequest (primaryDown (Inr (Some ''oops''))) ''abc'' (Finite 2) ''Easy'' ''Short'' [])
      = Inl (Exn ''SyntaxError'' ''Unexpected token'')"
    by (rule primaryDown_secondary_bad)
  from both_models_fail [OF key first second] show ?thesis by simp
qed

text \<open>C8. A response whose body parses as JSON but holds no \<open>questions\<close> array should fail
  the validation with the message \<open>Invalid response format ...\<close>. The lemma
  \<open>processResponse_invalid_format\<close> shows that it does for every parsed body other than
  \<open>null\<close>. For the body \<open>null\<close> the guard itself throws: \<open>parsed.questions\<close> is a read on
  \<open>null\<close>, so the failure is a \<open>TypeError\<close>, and when both models answer \<open>null\<close> the message of
  the operation carries the text of that \<open>TypeError\<close> instead of the diagnostic.\<close>

theorem null_body_not_invalid_format:
  "processResponse (answering ''null'') ''MCQ'' ''null'' =
     Inl (Exn ''TypeError'' (nullishReadMessage ''null'' ''questions''))
   \<and> generateQuiz (answering ''null'') ''abc'' (Finite 5) ''Hard'' ''MCQ'' [] =
     (Inl (Exn ''Error'' (generationFailedMessage (nullishReadMessage ''null'' ''questions''))),
      [primaryRequest (answering ''null'') ''abc'' (Finite 5) ''Hard'' ''MCQ'' [],
       secondaryRequest (answering ''null'') ''abc'' (Finite 5) ''Hard'' ''MCQ'' []])
   \<and> nullishReadMessage ''null'' ''questions'' \<noteq> invalidFormatMessage
   \<and> generationFailedMessage (nullishReadMessage ''null'' ''questions'')
       \<noteq> generationFailedMessage invalidFormatMessage"
proof -
  have p: "processResponse (answering ''null'') ''MCQ'' ''null'' =
     Inl (Exn ''TypeError'' (nullishReadMessage ''null'' ''questions''))"
    by (simp add: processResponse_def answering_simps exampleParse_examples)
  have ne: "nullishReadMessage ''null'' ''questions'' \<noteq> []"
    by (simp add: nullishReadMessage_def)
  have g: "generateQuiz (answering ''null'') ''abc'' (Finite 5) ''Hard'' ''MCQ'' [] =
     (Inl (Exn ''Error'' (generationFailedMessage (nullishReadMessage ''null'' ''questions''))),
      [primaryRequest (answering ''null'') ''abc'' (Finite 5) ''Hard'' ''MCQ'' [],
       secondaryRequest (answering ''null'') ''abc'' (Finite 5) ''Hard'' ''MCQ'' []])"
    using ne by (simp add: answering_generateQuiz trim_examples p orElseStr_def)
  have d: "nullishReadMessage ''null'' ''questions'' \<noteq> invalidFormatMessage"
    by (simp add: nullishReadMessage_def invalidFormatMessage_def)
  then have "generationFailedMessage (nullishReadMessage ''null'' ''questions'')
       \<noteq> generationFailedMessage invalidFormatMessage"
    by (simp add: generationFailedMessage_def)
  with p g d show ?thesis by blast
qed

text \<open>So the error of the operation is not the one that carries the diagnostic.\<close>

theorem null_body_not_invalid_format_witness:
  "fst (generateQuiz (answering ''null'') ''abc'' (Finite 5) ''Hard'' ''MCQ'' []) \<noteq>
     Inl (Exn ''Error'' (generationFailedMessage invalidFormatMessage))"
  using null_body_not_invalid_format by simp

text \<open>C9. Without a credential on either lookup path, \<open>generateQuiz\<close> and \<open>evaluateAnswer\<close>
  both fail with the error of \<open>getApiKey\<close> (the configuration error) and send no request.\<close>

theorem no_credential_no_request:
  assumes "noCredential env"
  shows "generateQuiz env pdfText numQuestions difficulty questionType examContext =
           (Inl (Exn ''Error'' apiKeyMissingMessage), [])
         \<and> evaluateAnswer env questionText modelAnswerText imageBase64 mimeType maxMarks =
           (Inl (Exn ''Error'' apiKeyMissingMessage), [])"
  using noCredential_getApiKey [OF assms]
  by (simp add: generateQuiz_without_key evaluateAnswer_def)

text \<open>An environment without \<open>process\<close> and with an empty \<open>VITE_API_KEY\<close>.\<close>

theorem no_credential_no_request_witness:
  "noCredential noKeyEnv
   \<and> generateQuiz noKeyEnv ''abc'' (Finite 5) ''Hard'' ''MCQ'' [] =
       (Inl (Exn ''Error'' apiKeyMissingMessage), [])
   \<and> evaluateAnswer noKeyEnv ''Q1'' ''A1'' ''aGVsbG8='' ''image/png'' (Finite 5) =
       (Inl (Exn ''Error'' apiKeyMissingMessage), [])"
proof -
  have h: "noCredential noKeyEnv"
    by (simp add: noCredential_def noKeyEnv_def)
  from no_credential_no_request [OF h] h show ?thesis by simp
qed

section \<open>Claims about evaluating an answer\<close>

text \<open>C5, as stated, fails: the response \<open>{}\<close> parses, and the parsed value is returned
  although it has none of the four fields.\<close>

theorem evaluateAnswer_missing_fields_counterexample:
  "evaluateAnswer (answering ''{}'') ''Q1'' ''A1'' ''aGVsbG8='' ''image/png'' (Finite 5) =
     (Inr (Obj []), [evaluationRequest (answering ''{}'') ''Q1'' ''A1'' ''aGVsbG8='' ''image/png'' (Finite 5)])
   \<and> getProp (Obj []) ''score'' = Inr Undefined
   \<and> getProp (Obj []) ''maxMarks'' = Inr Undefined
   \<and> getProp (Obj []) ''mistakes'' = Inr Undefined
   \<and> getProp (Obj []) ''feedback'' = Inr Undefined"
  by (simp add: answering_evaluate trim_examples exampleParse_examples)

text \<open>C5, amended. With an API key, if the call to the model throws, or the trimmed text of
  the response does not parse, \<open>evaluateAnswer\<close> fails with an \<open>Error\<close> whose message is
  \<open>Evaluation failed: \<close> followed by the message of that failure (by a fixed advice when that
  message is empty), after one request. Whether the fields \<open>score\<close>, \<open>maxMarks\<close>, \<open>mistakes\<close>
  and \<open>feedback\<close> are present is not checked.\<close>

theorem evaluateAnswer_failure:
  assumes key: "getApiKey env = Inr apiKey"
    and fails: "generateContent env apiKey
                  (evaluationRequest env questionText modelAnswerText imageBase64 mimeType maxMarks) = Inl e
                \<or> (\<exists>t. generateContent env apiKey
                          (evaluationRequest env questionText modelAnswerText imageBase64 mimeType maxMarks)
                        = Inr (Some t)
                      \<and> JSON_parse env (trim t) = Inl e)"
  shows "evaluateAnswer env questionText modelAnswerText imageBase64 mimeType maxMarks =
           (Inl (Exn ''Error''
                  (''Evaluation failed: '' @
                   (if message e \<noteq> [] then message e else ''Please check your API Key.''))),
            [evaluationRequest env questionText modelAnswerText imageBase64 mimeType maxMarks])"
  using fails
  by (auto simp: evaluateAnswer_with_key [OF key] responseTextTrim_def evaluationFailedMessage_def
      orElseStr_def)

text \<open>The model answers with a text that is no JSON.\<close>

theorem evaluateAnswer_failure_witness:
  "getApiKey (answering ''oops'') = Inr ''k''
   \<and> generateContent (answering ''oops'') ''k''
        (evaluationRequest (answering ''oops'') ''Q1'' ''A1'' ''aGVsbG8='' ''image/png'' (Finite 5))
      = Inr (Some ''oops'')
   \<and> JSON_parse (answering ''oops'') (trim ''oops'') = Inl (Exn ''SyntaxError'' ''Unexpected token'')
   \<and> evaluateAnswer (answering ''oops'') ''Q1'' ''A1'' ''aGVsbG8='' ''image/png'' (Finite 5) =
       (Inl (Exn ''Error'' ''Evaluation failed: Unexpected token''),
        [evaluationRequest (answering ''oops'') ''Q1'' ''A1'' ''aGVsbG8='' ''image/png'' (Finite 5)])"
proof -
  have key: "getApiKey (answering ''oops'') = Inr ''k''"
    by (simp add: answering_simps)
  have call: "generateContent (answering ''oops'') ''k''
        (evaluationRequest (answering ''oops'') ''Q1'' ''A1'' ''aGVsbG8='' ''image/png'' (Finite 5))
      = Inr (Some ''oops'')"
    by (simp add: answering_simps)
  have parse: "JSON_parse (answering ''oops'') (trim ''oops'') = Inl (Exn ''SyntaxError'' ''Unexpected token'')"
    by (simp add: answering_simps trim_examples exampleParse_examples)
  from call parse have fails: "generateContent (answering ''oops'') ''k''
        (evaluationRequest (answering ''oops'') ''Q1'' ''A1'' ''aGVsbG8='' ''image/png'' (Finite 5))
      = Inl (Exn ''SyntaxError'' ''Unexpected token'')
     \<or> (\<exists>t. generateContent (answering ''oops'') ''k''
        (evaluationRequest (answering ''oops'') ''Q1'' ''A1'' ''aGVsbG8='' ''image/png'' (Finite 5))
          = Inr (Some t)
        \<and> JSON_parse (answering ''oops'') (trim t) = Inl (Exn ''SyntaxError'' ''Unexpected token''))"
    by blast
  from evaluateAnswer_failure [OF key fails] key call parse show ?thesis by simp
qed

text \<open>C6, as stated, fails: with \<open>maxMarks = 5\<close> and a response that reports the score 7,
  the result has the score 7.\<close>

theorem score_above_maxMarks_counterexample:
  "evaluateAnswer (answering score7Text) ''Q1'' ''A1'' ''aGVsbG8='' ''image/png'' (Finite 5) =
     (Inr score7Json,
      [evaluationRequest (answering score7Text) ''Q1'' ''A1'' ''aGVsbG8='' ''image/png'' (Finite 5)])
   \<and> getProp score7Json ''score'' = Inr (Num (Finite 7))
   \<and> \<not> scoreWithinMax score7Json (Finite 5)"
  by (simp add: answering_evaluate trim_examples exampleParse_examples score7Json_def scoreWithinMax_def)

text \<open>C6, amended. With an API key, if the response has a text whose trimmed form parses,
  \<open>evaluateAnswer\<close> returns the parsed value unchanged. So the score of the result is the
  score the model reported, and it is within \<open>maxMarks\<close> exactly when the reported one is.\<close>

theorem evaluateAnswer_returns_response:
  assumes key: "getApiKey env = Inr apiKey"
    and call: "generateContent env apiKey
                 (evaluationRequest env questionText modelAnswerText imageBase64 mimeType maxMarks)
               = Inr (Some t)"
    and parse: "JSON_parse env (trim t) = Inr response"
  shows "evaluateAnswer env questionText modelAnswerText imageBase64 mimeType maxMarks =
           (Inr response, [evaluationRequest env questionText modelAnswerText imageBase64 mimeType maxMarks])
         \<and> (\<forall>result. fst (evaluateAnswer env questionText modelAnswerText imageBase64 mimeType maxMarks)
                         = Inr result
               \<longrightarrow> scoreWithinMax result maxMarks = scoreWithinMax response maxMarks)"
  by (simp add: evaluateAnswer_with_key [OF key] call parse responseTextTrim_def)

text \<open>The reported score 7 against \<open>maxMarks = 7\<close>.\<close>

theorem evaluateAnswer_returns_response_witness:
  "evaluateAnswer (answering ('' '' @ score7Text)) ''Q1'' ''A1'' ''aGVsbG8='' ''image/png'' (Finite 7) =
     (Inr score7Json,
      [evaluationRequest (answering ('' '' @ score7Text)) ''Q1'' ''A1'' ''aGVsbG8='' ''image/png'' (Finite 7)])
   \<and> scoreWithinMax score7Json (Finite 7)"
proof -
  have key: "getApiKey (answering ('' '' @ score7Text)) = Inr ''k''"
    by (simp add: answering_simps)
  have call: "generateContent (answering ('' '' @ score7Text)) ''k''
        (evaluationRequest (answering ('' '' @ score7Text)) ''Q1'' ''A1'' ''aGVsbG8='' ''image/png'' (Finite 7))
      = Inr (Some ('' '' @ score7Text))"
    by (simp add: answering_simps)
  have "trim ('' '' @ score7Text) = score7Text"
    by (simp add: trim_def isWhiteSpace_def score7Text_def)
  then have parse: "JSON_parse (answering ('' '' @ score7Text)) (trim ('' '' @ score7Text)) = Inr score7Json"
    by (simp add: answering_simps exampleParse_examples)
  have w: "scoreWithinMax score7Json (Finite 7)"
    by (simp add: scoreWithinMax_def score7Json_def)
  from evaluateAnswer_returns_response [OF key call parse] w show ?thesis by simp
qed

end
